theory Spec2Isabelle
  imports Complex_Main "HOL-Library.Log_Nat"
begin

section \<open>Errors\<close>

text \<open>
  The exceptions that the modelled statements of \<^verbatim>\<open>recommendation.py\<close> can raise. A
  function that can raise returns \<open>error + 'a\<close>, with \<open>Inl\<close> for the exception.
\<close>

datatype error = ValueError | IndexError | KeyError | ZeroDivisionError

section \<open>Numbers\<close>

text \<open>
  The ratings, confidences and means of \<^verbatim>\<open>recommendation.py\<close> are Python floats, that
  is IEEE 754 binary64 numbers. A finite float is modelled by the rational number it
  denotes; the two zeros are not told apart (they compare equal in the program). The
  missing value of a data frame cell (\<^verbatim>\<open>NaN\<close>, \<^verbatim>\<open>None\<close>) is \<open>None\<close> of an option type.

  The arithmetic of \<^verbatim>\<open>predictRatingRules\<close> is modelled as the machine does it: the
  exact result of an operation is rounded to the nearest binary64 number, a tie going
  to the even significand, and a result too large becomes an infinity. The comparisons
  and \<^verbatim>\<open>int()\<close> of \<^verbatim>\<open>roundRating\<close> are functions of the exact value, and its
  subtraction \<^verbatim>\<open>rating - int(rating)\<close> is exact in binary64 for a rating that is not
  negative. The cluster means of the data frames are kept exact.
\<close>

text \<open>\<^verbatim>\<open>int(x)\<close> of a float truncates towards zero.\<close>

definition py_int :: "rat \<Rightarrow> int" where
  "py_int x = (if 0 \<le> x then \<lfloor>x\<rfloor> else \<lceil>x\<rceil>)"

text \<open>The integer nearest to \<open>y\<close>, a tie going to the even one.\<close>

definition round_half_even :: "rat \<Rightarrow> int" where
  "round_half_even y =
     (let f = \<lfloor>y\<rfloor>; d = y - of_int f
      in if d < 1 / 2 then f
         else if 1 / 2 < d then f + 1
         else if even f then f else f + 1)"

subsection \<open>Binary64\<close>

text \<open>
  \<open>pow2 k\<close> is \<open>2\<close> to the power \<open>k\<close>, and \<open>ilog2 q\<close>, for a positive \<open>q\<close>, the exponent
  \<open>k\<close> with \<open>pow2 k \<le> q < pow2 (k + 1)\<close>, found from the bit lengths of the numerator
  and the denominator.
\<close>

definition pow2 :: "int \<Rightarrow> rat" where
  "pow2 k = (if 0 \<le> k then 2 ^ nat k else 1 / 2 ^ nat (- k))"

definition ilog2 :: "rat \<Rightarrow> int" where
  "ilog2 q =
     (case quotient_of q of
        (a, b) \<Rightarrow>
          (let k = bitlen a - bitlen b
           in if pow2 k \<le> q then k else k - 1))"

text \<open>
  A binary64 number is \<open>m * 2 ^ e\<close> with a significand \<open>m\<close> of at most 53 bits and an
  exponent \<open>e\<close> of at least \<open>-1074\<close>. \<open>round_to_double q\<close> is the number of this form
  nearest to \<open>q\<close> (ties to even), with no bound on the exponent from above; \<open>fl q\<close> is
  the float that the machine delivers for the exact result \<open>q\<close>: an infinity when the
  rounded number reaches \<open>2 ^ 1024\<close>.
\<close>

definition scale_round :: "rat \<Rightarrow> int \<Rightarrow> rat" where
  "scale_round q e = sgn q * of_int (round_half_even (\<bar>q\<bar> / pow2 e)) * pow2 e"

definition round_to_double :: "rat \<Rightarrow> rat" where
  "round_to_double q =
     (if q = 0 then 0 else scale_round q (max (- 1074) (ilog2 \<bar>q\<bar> - 52)))"

datatype pyfloat = Finite rat | PosInf | NegInf | NaN

definition finite_or_inf :: "rat \<Rightarrow> pyfloat" where
  "finite_or_inf d =
     (if d \<noteq> 0 \<and> 1024 \<le> ilog2 \<bar>d\<bar> then (if 0 < d then PosInf else NegInf)
      else Finite d)"

definition fl :: "rat \<Rightarrow> pyfloat" where
  "fl q = finite_or_inf (round_to_double q)"

text \<open>A rational that is the value of a finite float.\<close>

definition is_double :: "rat \<Rightarrow> bool" where
  "is_double q = (fl q = Finite q)"

text \<open>
  The sign of a float, and the infinity of a given sign; a sign 0 gives \<^verbatim>\<open>nan\<close>, as
  \<^verbatim>\<open>inf * 0.0\<close> does.
\<close>

definition fsign :: "pyfloat \<Rightarrow> int" where
  "fsign x =
     (case x of
        Finite a \<Rightarrow> (if 0 < a then 1 else if a < 0 then - 1 else 0)
      | PosInf \<Rightarrow> 1
      | NegInf \<Rightarrow> - 1
      | NaN \<Rightarrow> 0)"

definition signed_inf :: "int \<Rightarrow> pyfloat" where
  "signed_inf s = (if s = 0 then NaN else if 0 < s then PosInf else NegInf)"

text \<open>\<^verbatim>\<open>x + y\<close> and \<^verbatim>\<open>x * y\<close> of two floats. Neither raises.\<close>

definition fadd :: "pyfloat \<Rightarrow> pyfloat \<Rightarrow> pyfloat" where
  "fadd x y =
     (case (x, y) of
        (NaN, _) \<Rightarrow> NaN
      | (_, NaN) \<Rightarrow> NaN
      | (Finite a, Finite b) \<Rightarrow> fl (a + b)
      | (Finite a, _) \<Rightarrow> y
      | (_, Finite b) \<Rightarrow> x
      | (PosInf, PosInf) \<Rightarrow> PosInf
      | (NegInf, NegInf) \<Rightarrow> NegInf
      | _ \<Rightarrow> NaN)"

definition fmul :: "pyfloat \<Rightarrow> pyfloat \<Rightarrow> pyfloat" where
  "fmul x y =
     (case (x, y) of
        (NaN, _) \<Rightarrow> NaN
      | (_, NaN) \<Rightarrow> NaN
      | (Finite a, Finite b) \<Rightarrow> fl (a * b)
      | _ \<Rightarrow> signed_inf (fsign x * fsign y))"

text \<open>
  \<^verbatim>\<open>x / y\<close> of two floats raises \<^verbatim>\<open>ZeroDivisionError\<close> for a zero divisor; \<open>fdiv\<close>
  is the quotient for a divisor that is not zero.
\<close>

definition fdiv :: "pyfloat \<Rightarrow> pyfloat \<Rightarrow> pyfloat" where
  "fdiv x y =
     (case (x, y) of
        (NaN, _) \<Rightarrow> NaN
      | (_, NaN) \<Rightarrow> NaN
      | (Finite a, Finite b) \<Rightarrow> fl (a / b)
      | (Finite a, _) \<Rightarrow> Finite 0
      | (_, Finite b) \<Rightarrow> signed_inf (fsign x * fsign y)
      | _ \<Rightarrow> NaN)"

definition py_truediv :: "pyfloat \<Rightarrow> pyfloat \<Rightarrow> error + pyfloat" where
  "py_truediv x y = (if y = Finite 0 then Inl ZeroDivisionError else Inr (fdiv x y))"

text \<open>\<^verbatim>\<open>sum(xs)\<close> of a list of floats: from the integer 0, left to right.\<close>

definition py_sum :: "pyfloat list \<Rightarrow> pyfloat" where
  "py_sum xs = foldl fadd (Finite 0) xs"

text \<open>
  \<^verbatim>\<open>round(x, 2)\<close> of a float: the float nearest to the multiple of \<open>1/100\<close> that is
  nearest to the value of \<open>x\<close>, a tie going to the even multiple; an infinity and
  \<^verbatim>\<open>nan\<close> are returned as they are.
\<close>

definition py_round2 :: "pyfloat \<Rightarrow> pyfloat" where
  "py_round2 x =
     (case x of Finite a \<Rightarrow> fl (of_int (round_half_even (a * 100)) / 100) | _ \<Rightarrow> x)"

section \<open>Association rules and the rating they predict\<close>

text \<open>
  A row of the rule table that \<^verbatim>\<open>association_rules\<close> returns: the two item sets
  (\<^verbatim>\<open>frozenset\<close>s of column names) and the confidence. The other metric columns are
  never read by the program.
\<close>

record rule =
  antecedents :: "string list"
  consequents :: "string list"
  confidence :: rat

text \<open>
  \<^verbatim>\<open>predictRatingRules\<close>: the loop over \<^verbatim>\<open>important_rules\<close> carries the two
  accumulators \<^verbatim>\<open>predicted_rating\<close> and \<^verbatim>\<open>sum_confidence\<close>, both starting at 0. An
  important rule is the pair of a rule and a historical rating, both finite floats.
  The test \<^verbatim>\<open>sum_confidence == 0\<close> holds for a zero only, and the early \<^verbatim>\<open>return 0\<close>
  returns the integer 0.
\<close>

fun accumulate_rules ::
  "(rule \<times> rat) list \<Rightarrow> pyfloat \<times> pyfloat \<Rightarrow> pyfloat \<times> pyfloat" where
  "accumulate_rules [] (predicted_rating, sum_confidence) = (predicted_rating, sum_confidence)"
| "accumulate_rules (r # rs) (predicted_rating, sum_confidence) =
     accumulate_rules rs
       (fadd predicted_rating (fmul (Finite (confidence (fst r))) (Finite (snd r))),
        fadd sum_confidence (Finite (confidence (fst r))))"

definition predictRatingRules :: "(rule \<times> rat) list \<Rightarrow> error + pyfloat" where
  "predictRatingRules important_rules =
     (case accumulate_rules important_rules (Finite 0, Finite 0) of
        (predicted_rating, sum_confidence) \<Rightarrow>
          if sum_confidence = Finite 0 then Inr (Finite 0)
          else case py_truediv predicted_rating sum_confidence of
                 Inl e \<Rightarrow> Inl e
               | Inr q \<Rightarrow> Inr (py_round2 q))"

text \<open>
  \<^verbatim>\<open>roundRating\<close>. The source returns a Python \<^verbatim>\<open>int\<close> in the first and the last
  branch and a \<^verbatim>\<open>float\<close> in the middle one; the model returns the number.
\<close>

definition roundRating :: "rat \<Rightarrow> rat" where
  "roundRating rating =
     (let decimal = rating - of_int (py_int rating)
      in if decimal < 1 / 4 then of_int (py_int rating)
         else if decimal < 3 / 4 then of_int (py_int rating) + 1 / 2
         else of_int (py_int rating) + 1)"

section \<open>Data frames\<close>

text \<open>
  A rating record has the four columns \<^verbatim>\<open>userId\<close>, \<^verbatim>\<open>movieId\<close>, \<^verbatim>\<open>rating\<close>,
  \<^verbatim>\<open>title\<close> and one 0/1 column per genre. A data frame holds the names of the genre
  columns, its rows, and the two columns that the program itself adds to a frame,
  \<^verbatim>\<open>cluster\<close> and \<^verbatim>\<open>predicted_rating\<close>, each absent (\<open>None\<close>) or holding one value per
  row. A cell of \<^verbatim>\<open>predicted_rating\<close> may be the missing value. In column order the genre
  columns come first, then \<^verbatim>\<open>cluster\<close>, then \<^verbatim>\<open>predicted_rating\<close>, the order in which
  the program creates them.
\<close>

record row =
  userId :: int
  movieId :: int
  rating :: rat
  title :: string
  genre_flags :: "rat list"

record frame =
  genre_columns :: "string list"
  rows :: "row list"
  cluster_col :: "nat list option"
  predicted_rating_col :: "rat option list option"

text \<open>
  What is left of a frame after \<^verbatim>\<open>drop(columns=['userId', 'movieId', 'rating', 'title'])\<close>:
  the names of the remaining columns and, row by row, their cells. A stale
  \<^verbatim>\<open>cluster\<close> or \<^verbatim>\<open>predicted_rating\<close> column is not dropped, so it is among them.
\<close>

record matrix =
  feature_names :: "string list"
  samples :: "rat option list list"

definition extra_names :: "frame \<Rightarrow> string list" where
  "extra_names df =
     (case cluster_col df of None \<Rightarrow> [] | Some _ \<Rightarrow> [''cluster'']) @
     (case predicted_rating_col df of None \<Rightarrow> [] | Some _ \<Rightarrow> [''predicted_rating''])"

definition column_cells :: "nat \<Rightarrow> 'a list option \<Rightarrow> ('a \<Rightarrow> rat option) \<Rightarrow> rat option list list" where
  "column_cells n col f = (case col of None \<Rightarrow> replicate n [] | Some vs \<Rightarrow> map (\<lambda>v. [f v]) vs)"

definition other_cells :: "frame \<Rightarrow> rat option list list" where
  "other_cells df =
     (let n = length (rows df)
      in map (\<lambda>(r, c, p). map Some (genre_flags r) @ c @ p)
           (zip (rows df)
              (zip (column_cells n (cluster_col df) (\<lambda>c. Some (of_nat c)))
                   (column_cells n (predicted_rating_col df) (\<lambda>p. p)))))"

definition drop_id_columns :: "frame \<Rightarrow> matrix" where
  "drop_id_columns df =
     \<lparr>feature_names = genre_columns df @ extra_names df, samples = other_cells df\<rparr>"

text \<open>\<^verbatim>\<open>df[mask]\<close> for a mask computed row by row from the id columns.\<close>

definition select_rows :: "(row \<Rightarrow> bool) \<Rightarrow> frame \<Rightarrow> frame" where
  "select_rows P df =
     df\<lparr>rows := filter P (rows df),
        cluster_col := map_option (\<lambda>vs. map snd (filter (\<lambda>(r, v). P r) (zip (rows df) vs))) (cluster_col df),
        predicted_rating_col :=
          map_option (\<lambda>vs. map snd (filter (\<lambda>(r, v). P r) (zip (rows df) vs))) (predicted_rating_col df)\<rparr>"

text \<open>
  \<^verbatim>\<open>df['cluster'] = values\<close> for an array of values: pandas raises \<^verbatim>\<open>ValueError\<close> when
  the array has not one value per row. The assignment creates the column or overwrites
  it in place.
\<close>

definition set_cluster :: "frame \<Rightarrow> nat list \<Rightarrow> error + frame" where
  "set_cluster df vs =
     (if length vs = length (rows df) then Inr (df\<lparr>cluster_col := Some vs\<rparr>) else Inl ValueError)"

text \<open>
  \<^verbatim>\<open>df.groupby('cluster')['rating'].mean()\<close>: a series indexed by the cluster ids that
  occur in the frame, in increasing order, holding the mean rating of the rows of each
  cluster. \<^verbatim>\<open>KeyError\<close> when the frame has no \<^verbatim>\<open>cluster\<close> column.
\<close>

definition mean :: "rat list \<Rightarrow> rat" where
  "mean xs = sum_list xs / of_nat (length xs)"

definition groupby_cluster_rating_mean :: "frame \<Rightarrow> error + (nat \<times> rat) list" where
  "groupby_cluster_rating_mean df =
     (case cluster_col df of
        None \<Rightarrow> Inl KeyError
      | Some cl \<Rightarrow>
          (let members = zip cl (rows df)
           in Inr (map (\<lambda>c. (c, mean (map (rating \<circ> snd) (filter (\<lambda>m. fst m = c) members))))
                     (sort (remdups (map fst members))))))"

section \<open>The clustering library\<close>

text \<open>
  \<^verbatim>\<open>sklearn\<close> is not part of the repository; its three entry points that the program
  calls are parameters of the model. \<open>KMeans_fit n X\<close> stands for
  \<^verbatim>\<open>KMeans(n_clusters=n, random_state=42).fit(X)\<close>, a function of its arguments because
  the seed is fixed; a fitted model carries its cluster centers and the labels of the
  training rows. \<open>KMeans_predict\<close> is \<^verbatim>\<open>kmeans.predict(X)\<close>, and
  \<open>mean_squared_error\<close> takes \<^verbatim>\<open>y_true\<close> and \<^verbatim>\<open>y_pred\<close>. Each of them may raise.
\<close>

record kmeans =
  cluster_centers :: "rat list list"
  labels :: "nat list"
  feature_names_in :: "string list"

record sklearn =
  KMeans_fit :: "nat \<Rightarrow> matrix \<Rightarrow> error + kmeans"
  KMeans_predict :: "kmeans \<Rightarrow> matrix \<Rightarrow> error + nat list"
  mean_squared_error :: "rat list \<Rightarrow> rat option list \<Rightarrow> error + rat"

text \<open>
  Two checks of the library are part of the model. \<^verbatim>\<open>KMeans.fit\<close> refuses a sample
  with fewer rows than clusters (\<^verbatim>\<open>ValueError: n_samples=... should be >=
  n_clusters=...\<close>) before it fits anything; a fitted model remembers the column names
  of the frame it was fitted on (\<^verbatim>\<open>feature_names_in_\<close>), and \<^verbatim>\<open>kmeans.predict\<close> refuses
  a frame whose column names are not the same, in the same order (\<^verbatim>\<open>ValueError: The
  feature names should match those that were passed during fit\<close>).
\<close>

definition fit :: "sklearn \<Rightarrow> nat \<Rightarrow> matrix \<Rightarrow> error + kmeans" where
  "fit lib n_clusters X =
     (if length (samples X) < n_clusters then Inl ValueError
      else case KMeans_fit lib n_clusters X of
             Inl e \<Rightarrow> Inl e
           | Inr km \<Rightarrow> Inr (km\<lparr>feature_names_in := feature_names X\<rparr>))"

definition predict :: "sklearn \<Rightarrow> kmeans \<Rightarrow> matrix \<Rightarrow> error + nat list" where
  "predict lib km X =
     (if feature_names X \<noteq> feature_names_in km then Inl ValueError
      else KMeans_predict lib km X)"

section \<open>The cluster estimator and the cross-validation sweep\<close>

text \<open>
  \<^verbatim>\<open>train_kmeans_and_predict\<close> works on the frames of the caller: \<^verbatim>\<open>train_df[i]\<close> and
  \<^verbatim>\<open>test_df[i]\<close> are references, and an assignment to a column of one of them changes
  the caller's frame. The model passes the state of these frames explicitly: every
  function below returns, next to its result, the frames of the caller as the call
  leaves them, also when it raises. The frames of the two lists are taken to be distinct
  objects, as \<^verbatim>\<open>return_datasets\<close> produces them (each is a \<^verbatim>\<open>.copy()\<close>).

  \<open>fit_predict\<close> is the body of the loop up to the assignment of
  \<^verbatim>\<open>test_data['predicted_rating']\<close> (lines 110 to 128). Its result holds the locals
  of the body: the fitted model, the local \<^verbatim>\<open>test_data\<close>, \<^verbatim>\<open>y_test\<close>, the predicted
  column and the table \<^verbatim>\<open>cluster_mean_ratings\<close>. \<^verbatim>\<open>X_test\<close> is taken from the test
  frame before a stale \<^verbatim>\<open>predicted_rating\<close> column is dropped, so the column is among
  the features that \<^verbatim>\<open>kmeans.predict\<close> is given. When the test frame
  already has a \<^verbatim>\<open>predicted_rating\<close> column, \<^verbatim>\<open>test_data.drop(...)\<close> rebinds the local
  name to a new frame and the caller's test frame is not touched any more; otherwise the
  local name still refers to the caller's frame.
\<close>

definition fit_predict ::
  "sklearn \<Rightarrow> nat \<Rightarrow> frame \<Rightarrow> frame \<Rightarrow>
     (error + kmeans \<times> frame \<times> rat list \<times> rat option list \<times> (nat \<times> rat) list) \<times>
     frame \<times> frame" where
  "fit_predict lib n_clusters train_data test_data =
     (let X_train = drop_id_columns train_data;
          X_test = drop_id_columns test_data;
          y_test = map rating (rows test_data)
      in case fit lib n_clusters X_train of
           Inl e \<Rightarrow> (Inl e, train_data, test_data)
         | Inr km \<Rightarrow>
             (case set_cluster train_data (labels km) of
                Inl e \<Rightarrow> (Inl e, train_data, test_data)
              | Inr train_data' \<Rightarrow>
                  (let stale = (predicted_rating_col test_data \<noteq> None);
                       test_data1 =
                         (if stale then test_data\<lparr>predicted_rating_col := None\<rparr> else test_data)
                   in case predict lib km X_test of
                        Inl e \<Rightarrow> (Inl e, train_data', test_data)
                      | Inr cl \<Rightarrow>
                          (case set_cluster test_data1 cl of
                             Inl e \<Rightarrow> (Inl e, train_data', test_data)
                           | Inr test_data2 \<Rightarrow>
                               (case groupby_cluster_rating_mean train_data' of
                                  Inl e \<Rightarrow>
                                    (Inl e, train_data', if stale then test_data else test_data2)
                                | Inr cluster_mean_ratings \<Rightarrow>
                                    (let predicted = map (map_of cluster_mean_ratings) cl;
                                         test_data3 =
                                           test_data2\<lparr>predicted_rating_col := Some predicted\<rparr>
                                     in (Inr (km, test_data3, y_test, predicted, cluster_mean_ratings),
                                         train_data',
                                         if stale then test_data else test_data3)))))))"

text \<open>
  The whole body of the loop: \<open>fit_predict\<close>, then the error of the fold. The result is
  what the three \<^verbatim>\<open>append\<close>s add: the error, the model and the train frame.
\<close>

definition fold_step ::
  "sklearn \<Rightarrow> nat \<Rightarrow> frame \<Rightarrow> frame \<Rightarrow> (error + rat \<times> kmeans \<times> frame) \<times> frame \<times> frame" where
  "fold_step lib n_clusters train_data test_data =
     (case fit_predict lib n_clusters train_data test_data of
        (Inl e, train_data', test_data') \<Rightarrow> (Inl e, train_data', test_data')
      | (Inr (km, test_data3, y_test, predicted, cluster_mean_ratings), train_data', test_data') \<Rightarrow>
          (case mean_squared_error lib y_test predicted of
             Inl e \<Rightarrow> (Inl e, train_data', test_data')
           | Inr mse \<Rightarrow> (Inr (mse, km, train_data'), train_data', test_data')))"

text \<open>
  The loop \<^verbatim>\<open>for i in range(len(train_df))\<close>, over the list of its indices. Nothing
  catches an exception: the first one ends the loop and the call. \<^verbatim>\<open>test_df[i]\<close> raises
  \<^verbatim>\<open>IndexError\<close> when \<^verbatim>\<open>test_df\<close> is the shorter list.
\<close>

fun sweep ::
  "sklearn \<Rightarrow> nat \<Rightarrow> nat list \<Rightarrow> frame list \<times> frame list \<Rightarrow>
     rat list \<times> kmeans list \<times> frame list \<Rightarrow>
     (error + rat list \<times> kmeans list \<times> frame list) \<times> frame list \<times> frame list" where
  "sweep lib n_clusters [] (train_df, test_df) (mse_list, models, train_dfs) =
     (Inr (mse_list, models, train_dfs), train_df, test_df)"
| "sweep lib n_clusters (i # is) (train_df, test_df) (mse_list, models, train_dfs) =
     (if length test_df \<le> i then (Inl IndexError, train_df, test_df)
      else case fold_step lib n_clusters (train_df ! i) (test_df ! i) of
             (Inl e, train_data, test_data) \<Rightarrow>
               (Inl e, train_df[i := train_data], test_df[i := test_data])
           | (Inr (mse, km, train_data'), train_data, test_data) \<Rightarrow>
               sweep lib n_clusters is (train_df[i := train_data], test_df[i := test_data])
                 (mse_list @ [mse], models @ [km], train_dfs @ [train_data']))"

definition train_kmeans_and_predict ::
  "sklearn \<Rightarrow> frame list \<Rightarrow> frame list \<Rightarrow> nat \<Rightarrow>
     (error + rat list \<times> kmeans list \<times> frame list) \<times> frame list \<times> frame list" where
  "train_kmeans_and_predict lib train_df test_df n_clusters =
     sweep lib n_clusters [0..<length train_df] (train_df, test_df) ([], [], [])"

section \<open>The single-query predictor\<close>

text \<open>
  \<^verbatim>\<open>predict_rating_kmeans\<close> returns \<^verbatim>\<open>None\<close> when the catalog has no row of the movie
  (\<open>NotFound\<close>), and otherwise the triple of the predicted rating, the predicted clusters
  and the table of cluster means. \<^verbatim>\<open>DataFrame.empty\<close> holds when the frame has no row or
  no column. \<^verbatim>\<open>Series.get(key, None)\<close> is \<^verbatim>\<open>None\<close> for a key that is not in the index.
\<close>

datatype prediction = NotFound | Prediction "rat option" "nat list" "(nat \<times> rat) list"

definition predict_rating_kmeans ::
  "sklearn \<Rightarrow> int \<Rightarrow> int \<Rightarrow> kmeans list \<Rightarrow> frame list \<Rightarrow> frame \<Rightarrow> error + prediction" where
  "predict_rating_kmeans lib user_id movie_id models train_dfs movie_data =
     (let movie_features = drop_id_columns (select_rows (\<lambda>r. movieId r = movie_id) movie_data)
      in if samples movie_features = [] \<or> feature_names movie_features = [] then Inr NotFound
         else case models of
                [] \<Rightarrow> Inl IndexError
              | model0 # _ \<Rightarrow>
                  (case predict lib model0 movie_features of
                     Inl e \<Rightarrow> Inl e
                   | Inr predicted_cluster \<Rightarrow>
                       (case train_dfs of
                          [] \<Rightarrow> Inl IndexError
                        | train0 # _ \<Rightarrow>
                            (case groupby_cluster_rating_mean train0 of
                               Inl e \<Rightarrow> Inl e
                             | Inr cluster_mean_ratings \<Rightarrow>
                                 (case predicted_cluster of
                                    [] \<Rightarrow> Inl IndexError
                                  | c # _ \<Rightarrow>
                                      Inr (Prediction (map_of cluster_mean_ratings c)
                                             predicted_cluster cluster_mean_ratings))))))"

section \<open>The rule-based refiner\<close>

text \<open>
  The rows of a frame, each with the named cells of its columns other than the four id
  columns.
\<close>

definition named_cells :: "frame \<Rightarrow> (row \<times> (string \<times> rat option) list) list" where
  "named_cells df =
     zip (rows df) (map (zip (feature_names (drop_id_columns df))) (samples (drop_id_columns df)))"

text \<open>\<^verbatim>\<open>list(x.index[x == 1])\<close>: the names of the cells of a row that hold 1.\<close>

definition ones :: "(string \<times> rat option) list \<Rightarrow> string list" where
  "ones cells = map fst (filter (\<lambda>(name, v). v = Some 1) cells)"

text \<open>
  \<^verbatim>\<open>filterRules\<close> returns one of three things: the rating that the user gave the movie,
  its argument \<^verbatim>\<open>cluster_mean_ratings\<close> as it is, or the list of important rules. The
  two \<^verbatim>\<open>print\<close>s are not modelled. \<^verbatim>\<open>rules[0][cluster]\<close> is evaluated in the third
  branch only and raises \<^verbatim>\<open>IndexError\<close> out of range. In the third branch the genres of
  a rated movie are taken from the row without \<^verbatim>\<open>userId\<close>, \<^verbatim>\<open>movieId\<close> and \<^verbatim>\<open>title\<close>,
  so the \<^verbatim>\<open>rating\<close> cell is among the cells compared with 1; the genres of the target
  movie are the columns that hold 1 in every row of that movie (\<^verbatim>\<open>where\<close> blanks the
  other cells and \<^verbatim>\<open>dropna(axis=1)\<close> drops a column with a blank).
\<close>

datatype 'b refinement = Rating rat | ClusterMean 'b | ImportantRules "(rule \<times> rat) list"

definition filterRules ::
  "int \<Rightarrow> int \<Rightarrow> frame \<Rightarrow> nat \<Rightarrow> 'b \<Rightarrow> rule list list list \<Rightarrow> error + 'b refinement" where
  "filterRules uid mid df cluster cluster_mean_ratings rules =
     (let user_movies = filter (\<lambda>(r, cells). userId r = uid) (named_cells df)
      in if mid \<in> set (map (\<lambda>(r, cells). movieId r) user_movies)
         then (case filter (\<lambda>(r, cells). movieId r = mid) user_movies of
                 [] \<Rightarrow> Inl IndexError
               | (r, cells) # _ \<Rightarrow> Inr (Rating (rating r)))
         else if user_movies = [] then Inr (ClusterMean cluster_mean_ratings)
         else
           (let user_genres =
                  map (\<lambda>(r, cells). (rating r, ones ((''rating'', Some (rating r)) # cells)))
                    user_movies;
                movie_rows = filter (\<lambda>(r, cells). movieId r = mid) (named_cells df);
                movie_genres =
                  filter (\<lambda>name. list_all (\<lambda>(r, cells). map_of cells name = Some (Some 1)) movie_rows)
                    (feature_names (drop_id_columns df))
            in case rules of
                 [] \<Rightarrow> Inl IndexError
               | rules0 # _ \<Rightarrow>
                   if length rules0 \<le> cluster then Inl IndexError
                   else Inr (ImportantRules
                          (concat (map (\<lambda>rule.
                             if set (consequents rule) \<subseteq> set movie_genres
                             then concat (map (\<lambda>(historical, genres).
                                    if set (antecedents rule) \<subseteq> set genres
                                    then [(rule, historical)] else []) user_genres)
                             else []) (rules0 ! cluster))))))"

text \<open>
  A frame of pandas has one cell per row in every column. The model's frames can be
  built otherwise, so the theorems about rows of a frame ask for this.
\<close>

definition well_formed :: "frame \<Rightarrow> bool" where
  "well_formed df =
     ((case cluster_col df of None \<Rightarrow> True | Some cl \<Rightarrow> length cl = length (rows df)) \<and>
      (case predicted_rating_col df of None \<Rightarrow> True | Some ps \<Rightarrow> length ps = length (rows df)) \<and>
      list_all (\<lambda>r. length (genre_flags r) = length (genre_columns df)) (rows df))"

section \<open>Example data\<close>

text \<open>
  Two rules with the confidences 0.8 and 0.5 (the floats of these literals), and a small
  data set: user 1 rated movie 10
  (a comedy) with 4 and movie 20 (a drama) with 3, user 2 rated movie 10 with 5 and
  movie 20 with 2.
\<close>

definition rule8 :: rule where
  "rule8 = \<lparr>antecedents = [''Comedy''], consequents = [''Drama''], confidence = round_to_double (8 / 10)\<rparr>"

definition rule5 :: rule where
  "rule5 = \<lparr>antecedents = [''Drama''], consequents = [''Drama''], confidence = 1 / 2\<rparr>"

text \<open>
  Two rules with the confidences 1/128 and 99/128, and one whose confidence is the next
  float above 99/128.
\<close>

definition rule_low :: rule where
  "rule_low = \<lparr>antecedents = [''Comedy''], consequents = [''Drama''], confidence = 1 / 128\<rparr>"

definition rule_high :: rule where
  "rule_high = \<lparr>antecedents = [''Drama''], consequents = [''Drama''], confidence = 99 / 128\<rparr>"

definition rule_higher :: rule where
  "rule_higher =
     \<lparr>antecedents = [''Drama''], consequents = [''Drama''], confidence = 99 / 128 + 1 / 2 ^ 53\<rparr>"

definition row_a :: row where
  "row_a = \<lparr>userId = 1, movieId = 10, rating = 4, title = ''A'', genre_flags = [1, 0]\<rparr>"

definition row_b :: row where
  "row_b = \<lparr>userId = 1, movieId = 20, rating = 3, title = ''B'', genre_flags = [0, 1]\<rparr>"

definition row_c :: row where
  "row_c = \<lparr>userId = 2, movieId = 10, rating = 5, title = ''A'', genre_flags = [1, 0]\<rparr>"

definition row_d :: row where
  "row_d = \<lparr>userId = 2, movieId = 20, rating = 2, title = ''B'', genre_flags = [0, 1]\<rparr>"

definition frame_of :: "row list \<Rightarrow> frame" where
  "frame_of rs =
     \<lparr>genre_columns = [''Comedy'', ''Drama''], rows = rs, cluster_col = None,
      predicted_rating_col = None\<rparr>"

definition train_a :: frame where
  "train_a = frame_of [row_a]"

definition train_ab :: frame where
  "train_ab = frame_of [row_a, row_b]"

definition test_c :: frame where
  "test_c = frame_of [row_c]"

definition test_cd :: frame where
  "test_cd = frame_of [row_c, row_d]"

definition catalog :: frame where
  "catalog = frame_of [row_a, row_b, row_c, row_d]"

text \<open>The model that the stand-in below fits to \<open>train_ab\<close>, and \<open>train_ab\<close> as the fit leaves it.\<close>

definition model_ab :: kmeans where
  "model_ab =
     \<lparr>cluster_centers = [], labels = [0, 0], feature_names_in = [''Comedy'', ''Drama'']\<rparr>"

definition clustered_ab :: frame where
  "clustered_ab = train_ab\<lparr>cluster_col := Some [0, 0]\<rparr>"

text \<open>
  A stand-in for the library, for the examples. Like the library it refuses a missing
  value among the features, a request for no cluster and an empty frame. Fitting puts
  every training row into cluster 0, prediction puts a row into cluster 0 when its
  first cell is 1 and into cluster 1 otherwise, and the error of a fold is the mean of
  the squared differences, refused for an empty column and for a missing prediction.
\<close>

definition has_missing :: "matrix \<Rightarrow> bool" where
  "has_missing X = list_ex (list_ex (\<lambda>cell. cell = None)) (samples X)"

definition stub_sklearn :: sklearn where
  "stub_sklearn =
     \<lparr>KMeans_fit =
        (\<lambda>n X. if n = 0 \<or> has_missing X then Inl ValueError
               else Inr \<lparr>cluster_centers = [], labels = map (\<lambda>_. 0) (samples X),
                         feature_names_in = feature_names X\<rparr>),
      KMeans_predict =
        (\<lambda>km X. if samples X = [] \<or> has_missing X then Inl ValueError
                else Inr (map (\<lambda>cells. if take 1 cells = [Some 1] then 0 else 1) (samples X))),
      mean_squared_error =
        (\<lambda>ys ps. if ys = [] \<or> length ys \<noteq> length ps \<or> None \<in> set ps then Inl ValueError
                  else Inr (mean (map (\<lambda>(y, p). case p of None \<Rightarrow> 0 | Some q \<Rightarrow> (y - q) ^ 2) (zip ys ps))))\<rparr>"

text \<open>
  A train frame and a test frame that both carry a \<^verbatim>\<open>predicted_rating\<close> column from
  an earlier run.
\<close>

definition stale_train_ab :: frame where
  "stale_train_ab = train_ab\<lparr>predicted_rating_col := Some [Some 1, Some 1]\<rparr>"

definition stale_test_c :: frame where
  "stale_test_c = test_c\<lparr>predicted_rating_col := Some [Some 1]\<rparr>"

text \<open>
  The test frame \<open>test_c\<close> as a first run on \<open>train_ab\<close> leaves it, and the model that
  the stand-in fits to \<open>stale_train_ab\<close>.
\<close>

definition predicted_test_c :: frame where
  "predicted_test_c =
     test_c\<lparr>cluster_col := Some [0], predicted_rating_col := Some [Some (7 / 2)]\<rparr>"

definition model_stale :: kmeans where
  "model_stale =
     \<lparr>cluster_centers = [], labels = [0, 0],
      feature_names_in = [''Comedy'', ''Drama'', ''predicted_rating'']\<rparr>"

section \<open>The weighted average of the rules\<close>

lemma accumulate_rules_sums:
  "accumulate_rules rs (p, s) =
     (foldl fadd p (map (\<lambda>r. fmul (Finite (confidence (fst r))) (Finite (snd r))) rs),
      foldl fadd s (map (\<lambda>r. Finite (confidence (fst r))) rs))"
  by (induction rs arbitrary: p s) auto

lemma predictRatingRules_sums:
  "predictRatingRules rs =
     (if py_sum (map (\<lambda>r. Finite (confidence (fst r))) rs) = Finite 0 then Inr (Finite 0)
      else Inr (py_round2
             (fdiv (py_sum (map (\<lambda>r. fmul (Finite (confidence (fst r))) (Finite (snd r))) rs))
                   (py_sum (map (\<lambda>r. Finite (confidence (fst r))) rs)))))"
  by (simp add: predictRatingRules_def accumulate_rules_sums py_sum_def py_truediv_def)

lemma round_half_even_near: "\<bar>of_int (round_half_even y) - y\<bar> \<le> 1 / 2"
proof -
  have "of_int \<lfloor>y\<rfloor> \<le> y" "y < of_int \<lfloor>y\<rfloor> + 1" by linarith+
  then show ?thesis
    unfolding round_half_even_def Let_def by (auto simp: abs_le_iff)
qed

lemma py_round2_Finite:
  "\<exists>n::int. py_round2 (Finite a) = fl (of_int n / 100) \<and> \<bar>of_int n / 100 - a\<bar> \<le> 1 / 200"
proof -
  have "\<bar>of_int (round_half_even (a * 100)) / 100 - a\<bar> \<le> 1 / 200"
    using round_half_even_near [of "a * 100"] by (simp add: abs_le_iff field_simps)
  then show ?thesis
    unfolding py_round2_def by auto
qed

lemma fl_zero: "fl 0 = Finite 0"
  by (simp add: fl_def round_to_double_def finite_or_inf_def)

lemma py_sum_zeros:
  assumes "\<forall>x \<in> set xs. x = Finite 0"
  shows "foldl fadd (Finite 0) xs = Finite 0"
  using assms by (induction xs) (auto simp: fadd_def fl_zero)

lemma nonneg_sum_zero:
  fixes cs :: "rat list"
  assumes "\<forall>c \<in> set cs. 0 \<le> c" and "sum_list cs = 0"
  shows "\<forall>c \<in> set cs. c = 0"
  using assms
  by (induction cs) (auto simp: add_nonneg_eq_0_iff sum_list_nonneg)

text \<open>
  Claim C5, as stated, fails: the sums, the products and the quotient are computed in
  binary64, and the rounded float quotient is not always the rounded weighted average.
  On the rules with confidence 1/128 and rating 2.0 and confidence 99/128 and rating
  4.5 the weighted average is 4.475 exactly, which rounds to 4.48 (the tie goes to the
  even digit), and \<open>predictRatingRules\<close> returns 4.47. With the next float above 99/128
  as the second confidence the weighted average is above 4.475, the only hundredth
  nearest to it is 4.48, and \<open>predictRatingRules\<close> still returns 4.47.
\<close>

theorem weighted_average_counterexample:
  "predictRatingRules [(rule_low, 2), (rule_high, 9 / 2)] = Inr (fl (447 / 100)) \<and>
   (\<Sum>r\<leftarrow>[(rule_low, 2), (rule_high, 9 / 2 :: rat)]. confidence (fst r) * snd r) /
     (\<Sum>r\<leftarrow>[(rule_low, 2), (rule_high, 9 / 2 :: rat)]. confidence (fst r)) = 4475 / 1000 \<and>
   round_half_even (4475 / 1000 * 100) = 448 \<and>
   predictRatingRules [(rule_low, 2), (rule_higher, 9 / 2)] = Inr (fl (447 / 100)) \<and>
   4475 / 1000 <
     (\<Sum>r\<leftarrow>[(rule_low, 2), (rule_higher, 9 / 2 :: rat)]. confidence (fst r) * snd r) /
     (\<Sum>r\<leftarrow>[(rule_low, 2), (rule_higher, 9 / 2 :: rat)]. confidence (fst r)) \<and>
   (\<Sum>r\<leftarrow>[(rule_low, 2), (rule_higher, 9 / 2 :: rat)]. confidence (fst r) * snd r) /
     (\<Sum>r\<leftarrow>[(rule_low, 2), (rule_higher, 9 / 2 :: rat)]. confidence (fst r)) < 448 / 100 \<and>
   fl (447 / 100) \<noteq> fl (448 / 100) \<and>
   is_double (1 / 128) \<and> is_double (99 / 128) \<and> is_double (99 / 128 + 1 / 2 ^ 53) \<and>
   is_double 2 \<and> is_double (9 / 2)"
proof -
  have a: "predictRatingRules [(rule_low, 2), (rule_high, 9 / 2)] = Inr (fl (447 / 100))"
    by code_simp
  have b: "(\<Sum>r\<leftarrow>[(rule_low, 2), (rule_high, 9 / 2 :: rat)]. confidence (fst r) * snd r) /
     (\<Sum>r\<leftarrow>[(rule_low, 2), (rule_high, 9 / 2 :: rat)]. confidence (fst r)) = 4475 / 1000"
    by (simp add: rule_low_def rule_high_def)
  have c: "round_half_even (4475 / 1000 * 100) = 448"
    by code_simp
  have d: "predictRatingRules [(rule_low, 2), (rule_higher, 9 / 2)] = Inr (fl (447 / 100))"
    by code_simp
  have e: "4475 / 1000 <
     (\<Sum>r\<leftarrow>[(rule_low, 2), (rule_higher, 9 / 2 :: rat)]. confidence (fst r) * snd r) /
     (\<Sum>r\<leftarrow>[(rule_low, 2), (rule_higher, 9 / 2 :: rat)]. confidence (fst r))"
    by (simp add: rule_low_def rule_higher_def field_simps)
  have f: "(\<Sum>r\<leftarrow>[(rule_low, 2), (rule_higher, 9 / 2 :: rat)]. confidence (fst r) * snd r) /
     (\<Sum>r\<leftarrow>[(rule_low, 2), (rule_higher, 9 / 2 :: rat)]. confidence (fst r)) < 448 / 100"
    by (simp add: rule_low_def rule_higher_def field_simps)
  have g: "fl (447 / 100) \<noteq> fl (448 / 100)"
    by code_simp
  have h: "is_double (1 / 128) \<and> is_double (99 / 128) \<and> is_double (99 / 128 + 1 / 2 ^ 53) \<and>
   is_double 2 \<and> is_double (9 / 2)"
    by code_simp
  show ?thesis
    using a b c d e f g h by blast
qed

text \<open>
  Claim C5, amended. For every list of important rules whose confidences add up, in
  binary64 and from left to right, to a sum that is not zero, \<open>predictRatingRules\<close>
  returns \<^verbatim>\<open>round(p / s, 2)\<close>, where \<open>p\<close> is the sum of the products
  \<open>confidence * rating\<close> and \<open>s\<close> the sum of the confidences, every product, sum and
  the quotient rounded to binary64: when the quotient is finite, the result is the float
  nearest to a multiple of 1/100 that is at most 1/200 away from the quotient. It never
  raises. On the rules with confidence 0.8 and rating 4.0 and confidence 0.5 and rating
  3.0 it returns 3.62.
\<close>

theorem weighted_average:
  "(py_sum (map (\<lambda>r. Finite (confidence (fst r))) important_rules) \<noteq> Finite 0 \<longrightarrow>
      predictRatingRules important_rules =
        Inr (py_round2
          (fdiv (py_sum (map (\<lambda>r. fmul (Finite (confidence (fst r))) (Finite (snd r)))
                   important_rules))
                (py_sum (map (\<lambda>r. Finite (confidence (fst r))) important_rules)))) \<and>
      (\<forall>a. fdiv (py_sum (map (\<lambda>r. fmul (Finite (confidence (fst r))) (Finite (snd r)))
                     important_rules))
                 (py_sum (map (\<lambda>r. Finite (confidence (fst r))) important_rules)) = Finite a \<longrightarrow>
           (\<exists>n::int. predictRatingRules important_rules = Inr (fl (of_int n / 100)) \<and>
                     \<bar>of_int n / 100 - a\<bar> \<le> 1 / 200))) \<and>
   (\<exists>v. predictRatingRules important_rules = Inr v) \<and>
   predictRatingRules [(rule8, 4), (rule5, 3)] = Inr (fl (362 / 100))"
proof -
  have ex: "predictRatingRules [(rule8, 4), (rule5, 3)] = Inr (fl (362 / 100))"
    by code_simp
  have tot: "\<exists>v. predictRatingRules important_rules = Inr v"
    by (simp add: predictRatingRules_sums)
  have gen: "predictRatingRules important_rules =
        Inr (py_round2
          (fdiv (py_sum (map (\<lambda>r. fmul (Finite (confidence (fst r))) (Finite (snd r)))
                   important_rules))
                (py_sum (map (\<lambda>r. Finite (confidence (fst r))) important_rules))))"
    if "py_sum (map (\<lambda>r. Finite (confidence (fst r))) important_rules) \<noteq> Finite 0"
    using that by (simp add: predictRatingRules_sums)
  have near: "\<exists>n::int. Inr (py_round2 q) = (Inr (fl (of_int n / 100)) :: error + pyfloat) \<and>
                     \<bar>of_int n / 100 - a\<bar> \<le> 1 / 200"
    if "q = Finite a" for q a
    using py_round2_Finite [of a] that by auto
  show ?thesis
    using ex tot gen near by (auto simp del: One_nat_def)
qed

theorem weighted_average_witness:
  "py_sum (map (\<lambda>r. Finite (confidence (fst r))) [(rule8, 4), (rule5, 3)]) = fl (13 / 10) \<and>
   fl (13 / 10) \<noteq> Finite 0 \<and>
   py_sum (map (\<lambda>r. fmul (Finite (confidence (fst r))) (Finite (snd r))) [(rule8, 4), (rule5, 3)]) =
     fl (47 / 10) \<and>
   predictRatingRules [(rule8, 4), (rule5, 3)] = Inr (py_round2 (fdiv (fl (47 / 10)) (fl (13 / 10))))"
proof -
  have s: "py_sum (map (\<lambda>r. Finite (confidence (fst r))) [(rule8, 4), (rule5, 3)]) = fl (13 / 10)"
    by code_simp
  have n: "fl (13 / 10) \<noteq> Finite 0"
    by code_simp
  have p: "py_sum (map (\<lambda>r. fmul (Finite (confidence (fst r))) (Finite (snd r)))
             [(rule8, 4), (rule5, 3)]) = fl (47 / 10)"
    by code_simp
  have "predictRatingRules [(rule8, 4), (rule5, 3)] =
      Inr (py_round2 (fdiv (fl (47 / 10)) (fl (13 / 10))))"
    using weighted_average [of "[(rule8, 4), (rule5, 3)]"] n unfolding s p by blast
  then show ?thesis
    using s n p by blast
qed

text \<open>
  Claim C6. When the confidence sum that the loop accumulates is zero, and so for the
  empty list and for every list of confidences that are not negative and add up to
  zero, \<open>predictRatingRules\<close> returns 0. It has no access to a cluster baseline (its only
  argument is the list of rules), so falling back to one is left to the caller.
\<close>

theorem no_signal_sentinel:
  "(py_sum (map (\<lambda>r. Finite (confidence (fst r))) important_rules) = Finite 0 \<longrightarrow>
      predictRatingRules important_rules = Inr (Finite 0)) \<and>
   ((\<forall>r \<in> set important_rules. 0 \<le> confidence (fst r)) \<and>
    (\<Sum>r\<leftarrow>important_rules. confidence (fst r)) = 0 \<longrightarrow>
      predictRatingRules important_rules = Inr (Finite 0)) \<and>
   predictRatingRules [] = Inr (Finite 0)"
proof (intro conjI impI)
  show "predictRatingRules [] = Inr (Finite 0)"
    by (simp add: predictRatingRules_sums py_sum_def)
  show "predictRatingRules important_rules = Inr (Finite 0)"
    if "py_sum (map (\<lambda>r. Finite (confidence (fst r))) important_rules) = Finite 0"
    using that by (simp add: predictRatingRules_sums)
  show "predictRatingRules important_rules = Inr (Finite 0)"
    if h: "(\<forall>r \<in> set important_rules. 0 \<le> confidence (fst r)) \<and>
           (\<Sum>r\<leftarrow>important_rules. confidence (fst r)) = 0"
  proof -
    have "\<forall>c \<in> set (map (\<lambda>r. confidence (fst r)) important_rules). c = 0"
      using h by (intro nonneg_sum_zero) auto
    then have "\<forall>x \<in> set (map (\<lambda>r. Finite (confidence (fst r))) important_rules). x = Finite 0"
      by auto
    then have "py_sum (map (\<lambda>r. Finite (confidence (fst r))) important_rules) = Finite 0"
      unfolding py_sum_def by (rule py_sum_zeros)
    then show ?thesis
      by (simp add: predictRatingRules_sums)
  qed
qed

theorem no_signal_sentinel_witness:
  "py_sum (map (\<lambda>r. Finite (confidence (fst r))) [(rule8\<lparr>confidence := 0\<rparr>, 4 :: rat)]) = Finite 0 \<and>
   predictRatingRules [(rule8\<lparr>confidence := 0\<rparr>, 4)] = Inr (Finite 0)"
proof -
  have s: "py_sum (map (\<lambda>r. Finite (confidence (fst r))) [(rule8\<lparr>confidence := 0\<rparr>, 4 :: rat)]) =
             Finite 0"
    by (simp add: py_sum_def fadd_def fl_zero)
  show ?thesis
    using no_signal_sentinel [of "[(rule8\<lparr>confidence := 0\<rparr>, 4)]"] s by blast
qed

section \<open>Rounding to half points\<close>

lemma roundRating_cases:
  assumes "0 \<le> x"
  shows "roundRating x =
     (if frac x < 1 / 4 then of_int (py_int x)
      else if frac x < 3 / 4 then of_int (py_int x) + 1 / 2
      else of_int (py_int x) + 1)"
  using assms by (simp add: roundRating_def py_int_def Let_def frac_def)

lemma roundRating_near:
  assumes "0 \<le> x"
  shows "\<bar>roundRating x - x\<bar> \<le> 1 / 4"
proof -
  define d where "d = x - of_int \<lfloor>x\<rfloor>"
  have r: "roundRating x =
      (if d < 1 / 4 then x - d else if d < 3 / 4 then x - d + 1 / 2 else x - d + 1)"
    using assms by (simp add: roundRating_def py_int_def Let_def d_def)
  have "0 \<le> d" "d < 1" unfolding d_def by linarith+
  then show ?thesis
    unfolding r by (auto simp: abs_if)
qed

text \<open>
  Claim C7, as stated, fails at 2.4: its fractional part 0.4 lies in [0.25, 0.75), and
  \<open>roundRating\<close> returns 2.5, not 2.
\<close>

theorem roundRating_counterexample:
  "roundRating (24 / 10) = 5 / 2 \<and> roundRating (24 / 10) \<noteq> 2"
  by code_simp

text \<open>
  Claim C7, amended. For a rating \<open>x \<ge> 0\<close>, \<open>roundRating x\<close> is \<open>int(x)\<close> when the
  fractional part of \<open>x\<close> is below 0.25, \<open>int(x) + 0.5\<close> when it is in [0.25, 0.75) and
  \<open>int(x) + 1\<close> when it is at least 0.75, where \<open>int(x)\<close> is the integer part of \<open>x\<close>; the
  result is at most 0.25 away from \<open>x\<close>. In particular roundRating(2.1) = 2,
  roundRating(2.4) = 2.5, roundRating(2.25) = 2.5, roundRating(2.7) = 2.5 and
  roundRating(2.76) = 3.
\<close>

theorem roundRating_law:
  "(0 \<le> x \<longrightarrow>
      roundRating x =
        (if frac x < 1 / 4 then of_int (py_int x)
         else if frac x < 3 / 4 then of_int (py_int x) + 1 / 2
         else of_int (py_int x) + 1) \<and>
      py_int x = \<lfloor>x\<rfloor> \<and>
      \<bar>roundRating x - x\<bar> \<le> 1 / 4) \<and>
   roundRating (21 / 10) = 2 \<and> roundRating (24 / 10) = 5 / 2 \<and>
   roundRating (225 / 100) = 5 / 2 \<and> roundRating (27 / 10) = 5 / 2 \<and>
   roundRating (276 / 100) = 3"
proof -
  have ex: "roundRating (21 / 10) = 2 \<and> roundRating (24 / 10) = 5 / 2 \<and>
   roundRating (225 / 100) = 5 / 2 \<and> roundRating (27 / 10) = 5 / 2 \<and>
   roundRating (276 / 100) = 3"
    by code_simp
  show ?thesis
    using ex roundRating_cases [of x] roundRating_near [of x] by (simp add: py_int_def)
qed

theorem roundRating_law_witness:
  "(0::rat) \<le> 13 / 4 \<and> frac (13 / 4 :: rat) = 1 / 4 \<and> py_int (13 / 4) = 3 \<and>
   roundRating (13 / 4) = 7 / 2"
proof -
  have f: "frac (13 / 4 :: rat) = 1 / 4" by code_simp
  have p: "py_int (13 / 4) = 3" by code_simp
  show ?thesis
    using roundRating_law [of "13 / 4"] f p by simp
qed


section \<open>The refiner\<close>

lemma named_cells_rows: "(r, cells) \<in> set (named_cells df) \<Longrightarrow> r \<in> set (rows df)"
  unfolding named_cells_def by (rule set_zip_leftD)

lemma length_column_cells:
  "length (column_cells n col f) = (case col of None \<Rightarrow> n | Some vs \<Rightarrow> length vs)"
  by (simp add: column_cells_def split: option.splits)

lemma length_other_cells:
  assumes "well_formed df"
  shows "length (other_cells df) = length (rows df)"
  using assms
  by (simp add: other_cells_def well_formed_def Let_def length_column_cells split: option.splits)

lemma map_fst_named_cells:
  assumes "well_formed df"
  shows "map fst (named_cells df) = rows df"
  using length_other_cells [OF assms]
  by (simp add: named_cells_def drop_id_columns_def)

text \<open>
  Claim C1. For a user with no rating history (no row of the data set carries the user's
  id) and any target movie, \<open>filterRules\<close> returns exactly the cluster baseline it was
  given (its argument \<^verbatim>\<open>cluster_mean_ratings\<close>), whatever the cluster and the rules are:
  no rule is looked at, not even \<^verbatim>\<open>rules[0][cluster]\<close>, which would raise for an empty
  rule list.
\<close>

theorem cold_user_fallback:
  assumes "\<forall>r \<in> set (rows df). userId r \<noteq> uid"
  shows "filterRules uid mid df cluster cluster_mean_ratings rules =
           Inr (ClusterMean cluster_mean_ratings)"
proof -
  have "filter (\<lambda>(r, cells). userId r = uid) (named_cells df) = []"
    using assms by (auto simp: filter_empty_conv dest: named_cells_rows)
  then show ?thesis
    by (simp add: filterRules_def)
qed


theorem cold_user_fallback_witness:
  "3 \<notin> set (map userId (rows (frame_of [row_a, row_b, row_c, row_d]))) \<and>
   filterRules 3 10 (frame_of [row_a, row_b, row_c, row_d]) 0 (7 / 2 :: rat) [] =
     Inr (ClusterMean (7 / 2)) \<and>
   filterRules 1 30 (frame_of [row_a, row_b, row_c, row_d]) 0 (7 / 2 :: rat) [] = Inl IndexError"
proof -
  have h: "\<forall>r \<in> set (rows (frame_of [row_a, row_b, row_c, row_d])). userId r \<noteq> 3"
    by (simp add: frame_of_def row_a_def row_b_def row_c_def row_d_def)
  have e: "filterRules 1 30 (frame_of [row_a, row_b, row_c, row_d]) 0 (7 / 2 :: rat) [] = Inl IndexError"
    by code_simp
  have n: "3 \<notin> set (map userId (rows (frame_of [row_a, row_b, row_c, row_d])))"
    by (simp add: frame_of_def row_a_def row_b_def row_c_def row_d_def)
  show ?thesis
    using n e cold_user_fallback [OF h, of 10 0 "7 / 2" "[]"] by blast
qed

text \<open>
  Claim C4. For a user who has already rated the target movie with rating \<open>R\<close> (a row of
  the data set carries the user's id, the movie's id and \<open>R\<close>, and, as the data model
  requires of a (user, movie) pair, no row of that pair carries another rating),
  \<open>filterRules\<close> returns exactly \<open>R\<close>, whatever the cluster, the baseline and the rules
  are.
\<close>

theorem already_rated:
  assumes "well_formed df"
    and "r \<in> set (rows df)" and "userId r = uid" and "movieId r = mid"
    and "\<forall>r' \<in> set (rows df). userId r' = uid \<and> movieId r' = mid \<longrightarrow> rating r' = rating r"
  shows "filterRules uid mid df cluster cluster_mean_ratings rules = Inr (Rating (rating r))"
proof -
  define user_movies where "user_movies = filter (\<lambda>(r, cells). userId r = uid) (named_cells df)"
  define hits where "hits = filter (\<lambda>(r, cells). movieId r = mid) user_movies"
  have "r \<in> fst ` set (named_cells df)"
    using map_fst_named_cells [OF assms(1)] assms(2) by (metis set_map)
  then obtain cells where rc: "(r, cells) \<in> set (named_cells df)"
    by force
  then have in_um: "(r, cells) \<in> set user_movies"
    using assms(3) by (simp add: user_movies_def)
  then have mem: "mid \<in> set (map (\<lambda>(r, cells). movieId r) user_movies)"
    using assms(4) by force
  have "(r, cells) \<in> set hits"
    using in_um assms(4) by (simp add: hits_def)
  then obtain r' cells' rest where hs: "hits = (r', cells') # rest"
    by (cases hits) auto
  then have "(r', cells') \<in> set hits" by simp
  then have "r' \<in> set (rows df)" "userId r' = uid" "movieId r' = mid"
    by (auto simp: hits_def user_movies_def dest: named_cells_rows)
  then have "rating r' = rating r"
    using assms(5) by blast
  moreover have "filterRules uid mid df cluster cluster_mean_ratings rules =
      (case hits of [] \<Rightarrow> Inl IndexError | (r, cells) # _ \<Rightarrow> Inr (Rating (rating r)))"
    using mem unfolding filterRules_def hits_def user_movies_def Let_def by (simp only: if_True)
  ultimately show ?thesis
    by (simp add: hs)
qed

theorem already_rated_witness:
  "well_formed (frame_of [row_a, row_b, row_c, row_d]) \<and>
   row_b \<in> set (rows (frame_of [row_a, row_b, row_c, row_d])) \<and>
   userId row_b = 1 \<and> movieId row_b = 20 \<and>
   map rating (filter (\<lambda>r. userId r = 1 \<and> movieId r = 20)
     (rows (frame_of [row_a, row_b, row_c, row_d]))) = [rating row_b] \<and>
   filterRules 1 20 (frame_of [row_a, row_b, row_c, row_d]) 5 (7 / 2 :: rat) [] = Inr (Rating 3)"
proof -
  have w: "well_formed (frame_of [row_a, row_b, row_c, row_d])"
    by (simp add: well_formed_def frame_of_def row_a_def row_b_def row_c_def row_d_def)
  have m: "row_b \<in> set (rows (frame_of [row_a, row_b, row_c, row_d]))"
    by (simp add: frame_of_def)
  have u: "userId row_b = 1" "movieId row_b = 20" "rating row_b = 3"
    by (simp_all add: row_b_def)
  have q: "\<forall>r' \<in> set (rows (frame_of [row_a, row_b, row_c, row_d])).
      userId r' = 1 \<and> movieId r' = 20 \<longrightarrow> rating r' = rating row_b"
    by (simp add: frame_of_def row_a_def row_b_def row_c_def row_d_def)
  have "filterRules 1 20 (frame_of [row_a, row_b, row_c, row_d]) 5 (7 / 2 :: rat) [] = Inr (Rating 3)"
    using already_rated [OF w m u(1) u(2) q, of 5 "7 / 2" "[]"] by (simp only: u(3))
  moreover have "map rating (filter (\<lambda>r. userId r = 1 \<and> movieId r = 20)
     (rows (frame_of [row_a, row_b, row_c, row_d]))) = [rating row_b]"
    by (simp add: frame_of_def row_a_def row_b_def row_c_def row_d_def)
  ultimately show ?thesis
    using w m u by blast
qed

section \<open>The single-query predictor\<close>

text \<open>
  Claim C10. For a fixed movie id, model list, list of train sets and catalog,
  \<open>predict_rating_kmeans\<close> returns the same result (the same prediction or the same
  exception) for every user id.
\<close>

theorem user_id_not_consulted:
  "predict_rating_kmeans lib user_id movie_id models train_dfs movie_data =
   predict_rating_kmeans lib user_id' movie_id models train_dfs movie_data"
  by (simp add: predict_rating_kmeans_def)


section \<open>The cluster estimator\<close>

lemma map_of_keyed:
  "map_of (map (\<lambda>k. (k, f k)) ks) c = (if c \<in> set ks then Some (f c) else None)"
  by (induction ks) auto

lemma groupby_lookup:
  assumes "cluster_col df = Some cl"
  shows "\<exists>t. groupby_cluster_rating_mean df = Inr t \<and>
           (map_of t c = None) = (c \<notin> set (map fst (zip cl (rows df))))"
  using assms by (simp add: groupby_cluster_rating_mean_def Let_def map_of_keyed)

lemma groupby_lookup_full:
  assumes "cluster_col df = Some cl" and "length cl = length (rows df)"
  shows "\<exists>t. groupby_cluster_rating_mean df = Inr t \<and> (map_of t c = None) = (c \<notin> set cl)"
  using groupby_lookup [OF assms(1), of c] assms(2) by simp

lemma set_cluster_Inr:
  "set_cluster df vs = Inr df' \<Longrightarrow> length vs = length (rows df) \<and> df' = df\<lparr>cluster_col := Some vs\<rparr>"
  by (auto simp: set_cluster_def split: if_splits)

lemma fit_predict_Inr:
  assumes "fit_predict lib n tr te = (Inr (km, td, y, ps, t), tr', te')"
  shows "fit lib n (drop_id_columns tr) = Inr km"
    and "length (labels km) = length (rows tr)"
    and "tr' = tr\<lparr>cluster_col := Some (labels km)\<rparr>"
    and "y = map rating (rows te)"
    and "\<exists>cl. predict lib km (drop_id_columns te) = Inr cl \<and>
           length cl = length (rows te) \<and>
           ps = map (map_of t) cl \<and>
           td = te\<lparr>cluster_col := Some cl, predicted_rating_col := Some ps\<rparr>"
    and "te' = (if predicted_rating_col te \<noteq> None then te else td)"
    and "groupby_cluster_rating_mean (tr\<lparr>cluster_col := Some (labels km)\<rparr>) = Inr t"
  using assms unfolding fit_predict_def Let_def
  by (auto split: sum.splits if_splits dest!: set_cluster_Inr)

lemma fit_predict_Inl:
  assumes "fit_predict lib n tr te = (Inl e, tr', te')"
  shows "(tr' = tr \<or> (\<exists>km. fit lib n (drop_id_columns tr) = Inr km \<and> tr' = tr\<lparr>cluster_col := Some (labels km)\<rparr>))"
    and "predicted_rating_col te \<noteq> None \<longrightarrow> te' = te"
    and "rows te' = rows te"
  using assms unfolding fit_predict_def Let_def
  by (auto split: sum.splits if_splits dest!: set_cluster_Inr)

lemma fit_predict_degenerate:
  assumes "length (rows tr) < n"
  shows "fit_predict lib n tr te = (Inl ValueError, tr, te)"
proof -
  have "length (samples (drop_id_columns tr)) \<le> length (rows tr)"
    by (simp add: drop_id_columns_def other_cells_def Let_def)
  then have "fit lib n (drop_id_columns tr) = Inl ValueError"
    using assms by (simp add: fit_def)
  then show ?thesis
    by (simp add: fit_predict_def Let_def)
qed

lemma fold_step_Inr:
  assumes "fold_step lib n tr te = (Inr (mse, km, trd), tr', te')"
  shows "\<exists>td y ps t. fit_predict lib n tr te = (Inr (km, td, y, ps, t), tr', te') \<and>
           mean_squared_error lib y ps = Inr mse"
    and "trd = tr'"
  using assms unfolding fold_step_def
  by (auto split: prod.splits sum.splits)

lemma fold_step_Inl:
  assumes "fold_step lib n tr te = (Inl e, tr', te')"
  shows "fit_predict lib n tr te = (Inl e, tr', te') \<or>
         (\<exists>km td y ps t. fit_predict lib n tr te = (Inr (km, td, y, ps, t), tr', te'))"
  using assms unfolding fold_step_def
  by (auto split: prod.splits sum.splits)

lemma fold_step_degenerate:
  assumes "length (rows tr) < n"
  shows "fold_step lib n tr te = (Inl ValueError, tr, te)"
  by (simp add: fold_step_def fit_predict_degenerate [OF assms])

text \<open>A fold whose train set is too small ends the sweep; the folds after it are not reached.\<close>

lemma sweep_degenerate:
  assumes "i \<notin> set xs" and "length (rows (train_df ! i)) < n"
  shows "\<exists>e train_df' test_df'.
           sweep lib n (xs @ i # ys) (train_df, test_df) acc = (Inl e, train_df', test_df') \<and>
           (\<forall>j. j \<notin> set xs \<longrightarrow> train_df' ! j = train_df ! j \<and> test_df' ! j = test_df ! j)"
  using assms
proof (induction xs arbitrary: train_df test_df acc)
  case Nil
  obtain a b c where acc: "acc = (a, b, c)" by (cases acc)
  show ?case
    using Nil by (simp add: acc fold_step_degenerate)
next
  case (Cons x xs)
  obtain a b c where acc: "acc = (a, b, c)" by (cases acc)
  have xi: "x \<noteq> i" using Cons.prems by auto
  show ?case
  proof (cases "length test_df \<le> x")
    case True
    then show ?thesis by (simp add: acc)
  next
    case False
    obtain res tr' te' where fs: "fold_step lib n (train_df ! x) (test_df ! x) = (res, tr', te')"
      by (cases "fold_step lib n (train_df ! x) (test_df ! x)")
    show ?thesis
    proof (cases res)
      case (Inl e)
      then show ?thesis
        using False fs by (simp add: acc)
    next
      case (Inr v)
      obtain mse km trd where v: "v = (mse, km, trd)" by (cases v)
      have "\<exists>e train_df' test_df'.
           sweep lib n (xs @ i # ys) (train_df[x := tr'], test_df[x := te'])
             (a @ [mse], b @ [km], c @ [trd]) = (Inl e, train_df', test_df') \<and>
           (\<forall>j. j \<notin> set xs \<longrightarrow> train_df' ! j = (train_df[x := tr']) ! j \<and>
                                   test_df' ! j = (test_df[x := te']) ! j)"
        using Cons.prems xi by (intro Cons.IH) auto
      then show ?thesis
        using False fs Inr v by (auto simp: acc)
    qed
  qed
qed

lemma fold_step_post:
  assumes "fold_step lib n tr te = (Inr (mse, km, trd), tr', te')"
  shows "fit lib n (drop_id_columns tr) = Inr km"
    and "trd = tr\<lparr>cluster_col := Some (labels km)\<rparr>"
    and "tr' = trd"
    and "predicted_rating_col te \<noteq> None \<longrightarrow> te' = te"
    and "predicted_rating_col te = None \<longrightarrow>
           (\<exists>cl ps. te' = te\<lparr>cluster_col := Some cl, predicted_rating_col := Some ps\<rparr>)"
proof -
  obtain td y ps t where fp: "fit_predict lib n tr te = (Inr (km, td, y, ps, t), tr', te')"
    and t: "trd = tr'"
    using fold_step_Inr [OF assms] by blast
  show "fit lib n (drop_id_columns tr) = Inr km"
    by (rule fit_predict_Inr(1) [OF fp])
  show "trd = tr\<lparr>cluster_col := Some (labels km)\<rparr>"
    using fit_predict_Inr(3) [OF fp] t by simp
  show "tr' = trd" using t by simp
  show "predicted_rating_col te \<noteq> None \<longrightarrow> te' = te"
    using fit_predict_Inr(6) [OF fp] by simp
  show "predicted_rating_col te = None \<longrightarrow>
           (\<exists>cl ps. te' = te\<lparr>cluster_col := Some cl, predicted_rating_col := Some ps\<rparr>)"
    using fit_predict_Inr(5,6) [OF fp] by auto
qed

lemma sweep_Cons_Inr:
  assumes "sweep lib n (i # is) (trs, tes) (a, b, c) = (Inr r, h)"
  obtains mse km trd tr' te' where "i < length tes"
    and "fold_step lib n (trs ! i) (tes ! i) = (Inr (mse, km, trd), tr', te')"
    and "sweep lib n is (trs[i := tr'], tes[i := te']) (a @ [mse], b @ [km], c @ [trd]) = (Inr r, h)"
proof -
  have lt: "i < length tes"
    using assms by (auto split: if_splits)
  obtain res tr' te' where fs: "fold_step lib n (trs ! i) (tes ! i) = (res, tr', te')"
    by (cases "fold_step lib n (trs ! i) (tes ! i)")
  show thesis
  proof (cases res)
    case (Inl e)
    then show ?thesis using assms lt fs by simp
  next
    case (Inr v)
    obtain mse km trd where v: "v = (mse, km, trd)" by (cases v)
    show ?thesis
      using assms lt fs Inr v that [of mse km trd tr' te'] by simp
  qed
qed

text \<open>What a sweep that returns has done to the frames, fold by fold.\<close>

lemma sweep_Inr_char:
  assumes "sweep lib n is (trs, tes) (a, b, c) = (Inr (a', b', c'), trs', tes')"
    and "distinct is" and "\<forall>i \<in> set is. i < length trs"
  shows "\<exists>ms kms tds. a' = a @ ms \<and> b' = b @ kms \<and> c' = c @ tds \<and>
           length ms = length is \<and> length kms = length is \<and> length tds = length is \<and>
           length trs' = length trs \<and> length tes' = length tes \<and>
           (\<forall>i \<in> set is. i < length tes) \<and>
           (\<forall>j. j \<notin> set is \<longrightarrow> trs' ! j = trs ! j \<and> tes' ! j = tes ! j) \<and>
           (\<forall>p < length is.
              fit lib n (drop_id_columns (trs ! (is ! p))) = Inr (kms ! p) \<and>
              tds ! p = (trs ! (is ! p))\<lparr>cluster_col := Some (labels (kms ! p))\<rparr> \<and>
              trs' ! (is ! p) = tds ! p \<and>
              (predicted_rating_col (tes ! (is ! p)) \<noteq> None \<longrightarrow> tes' ! (is ! p) = tes ! (is ! p)) \<and>
              (predicted_rating_col (tes ! (is ! p)) = None \<longrightarrow>
                 (\<exists>cl ps. tes' ! (is ! p) =
                    (tes ! (is ! p))\<lparr>cluster_col := Some cl, predicted_rating_col := Some ps\<rparr>)))"
  using assms
proof (induction "is" arbitrary: trs tes a b c)
  case Nil
  then show ?case by simp
next
  case (Cons i "is")
  from Cons.prems(1) obtain mse km trd tr' te' where lt: "i < length tes"
    and fs: "fold_step lib n (trs ! i) (tes ! i) = (Inr (mse, km, trd), tr', te')"
    and rest: "sweep lib n is (trs[i := tr'], tes[i := te']) (a @ [mse], b @ [km], c @ [trd]) =
                 (Inr (a', b', c'), trs', tes')"
    by (rule sweep_Cons_Inr)
  note post = fold_step_post [OF fs]
  have ni: "i \<notin> set is" and d: "distinct is" and ltr: "i < length trs"
    using Cons.prems(2,3) by auto
  have bnd: "\<forall>j \<in> set is. j < length (trs[i := tr'])"
    using Cons.prems(3) by simp
  from Cons.IH [OF rest d bnd]
  obtain ms kms tds where
    eqs: "a' = (a @ [mse]) @ ms" "b' = (b @ [km]) @ kms" "c' = (c @ [trd]) @ tds"
    and lens: "length ms = length is" "length kms = length is" "length tds = length is"
      "length trs' = length trs" "length tes' = length tes"
    and inb: "\<forall>j \<in> set is. j < length tes"
    and out: "\<forall>j. j \<notin> set is \<longrightarrow> trs' ! j = (trs[i := tr']) ! j \<and> tes' ! j = (tes[i := te']) ! j"
    and ins: "\<forall>p < length is.
              fit lib n (drop_id_columns ((trs[i := tr']) ! (is ! p))) = Inr (kms ! p) \<and>
              tds ! p = ((trs[i := tr']) ! (is ! p))\<lparr>cluster_col := Some (labels (kms ! p))\<rparr> \<and>
              trs' ! (is ! p) = tds ! p \<and>
              (predicted_rating_col ((tes[i := te']) ! (is ! p)) \<noteq> None \<longrightarrow>
                 tes' ! (is ! p) = (tes[i := te']) ! (is ! p)) \<and>
              (predicted_rating_col ((tes[i := te']) ! (is ! p)) = None \<longrightarrow>
                 (\<exists>cl ps. tes' ! (is ! p) =
                    ((tes[i := te']) ! (is ! p))\<lparr>cluster_col := Some cl, predicted_rating_col := Some ps\<rparr>))"
    by (simp only: length_list_update) blast
  have here_tr: "trs' ! i = tr'" and here_te: "tes' ! i = te'"
    using out ni ltr lt by simp_all
  have other: "(trs[i := tr']) ! (is ! p) = trs ! (is ! p) \<and> (tes[i := te']) ! (is ! p) = tes ! (is ! p)"
    if "p < length is" for p
    using that ni by (metis nth_list_update_neq nth_mem)
  have step: "fit lib n (drop_id_columns (trs ! ((i # is) ! p))) = Inr ((km # kms) ! p) \<and>
              (trd # tds) ! p = (trs ! ((i # is) ! p))\<lparr>cluster_col := Some (labels ((km # kms) ! p))\<rparr> \<and>
              trs' ! ((i # is) ! p) = (trd # tds) ! p \<and>
              (predicted_rating_col (tes ! ((i # is) ! p)) \<noteq> None \<longrightarrow>
                 tes' ! ((i # is) ! p) = tes ! ((i # is) ! p)) \<and>
              (predicted_rating_col (tes ! ((i # is) ! p)) = None \<longrightarrow>
                 (\<exists>cl ps. tes' ! ((i # is) ! p) =
                    (tes ! ((i # is) ! p))\<lparr>cluster_col := Some cl, predicted_rating_col := Some ps\<rparr>))"
    if "p < length (i # is)" for p
  proof (cases p)
    case 0
    then show ?thesis
      using post here_tr here_te by simp
  next
    case (Suc q)
    then have q: "q < length is" using that by simp
    show ?thesis
      using ins [rule_format, OF q] other [OF q] by (simp add: Suc)
  qed
  have outside: "\<forall>j. j \<notin> set (i # is) \<longrightarrow> trs' ! j = trs ! j \<and> tes' ! j = tes ! j"
    using out by auto
  show ?case
    apply (rule exI [of _ "mse # ms"], rule exI [of _ "km # kms"], rule exI [of _ "trd # tds"])
    using eqs lens inb lt outside step by simp
qed

lemma groupby_clustered:
  "groupby_cluster_rating_mean (df\<lparr>cluster_col := Some cl\<rparr>) \<noteq> Inl e"
  by (simp add: groupby_cluster_rating_mean_def Let_def)

text \<open>Whatever the outcome of a fold, this is all that can have happened to the two frames.\<close>

lemma fit_predict_frames:
  assumes "fit_predict lib n tr te = (res, tr', te')"
  shows "tr' = tr \<or>
         (\<exists>km. fit lib n (drop_id_columns tr) = Inr km \<and> tr' = tr\<lparr>cluster_col := Some (labels km)\<rparr>)"
    and "te' = te \<or>
         (predicted_rating_col te = None \<and>
          (\<exists>cl ps. te' = te\<lparr>cluster_col := Some cl, predicted_rating_col := Some ps\<rparr>))"
proof -
  show "tr' = tr \<or>
         (\<exists>km. fit lib n (drop_id_columns tr) = Inr km \<and> tr' = tr\<lparr>cluster_col := Some (labels km)\<rparr>)"
    using assms unfolding fit_predict_def Let_def
    by (auto split: sum.splits if_splits dest!: set_cluster_Inr)
  show "te' = te \<or>
         (predicted_rating_col te = None \<and>
          (\<exists>cl ps. te' = te\<lparr>cluster_col := Some cl, predicted_rating_col := Some ps\<rparr>))"
    using assms unfolding fit_predict_def Let_def
    by (auto simp: groupby_clustered split: sum.splits if_splits dest!: set_cluster_Inr)
qed

lemma fold_step_frames:
  assumes "fold_step lib n tr te = (res, tr', te')"
  shows "tr' = tr \<or>
         (\<exists>km. fit lib n (drop_id_columns tr) = Inr km \<and> tr' = tr\<lparr>cluster_col := Some (labels km)\<rparr>)"
    and "te' = te \<or>
         (predicted_rating_col te = None \<and>
          (\<exists>cl ps. te' = te\<lparr>cluster_col := Some cl, predicted_rating_col := Some ps\<rparr>))"
proof -
  obtain r where "fit_predict lib n tr te = (r, tr', te')"
    using assms unfolding fold_step_def by (auto split: prod.splits sum.splits)
  from fit_predict_frames [OF this]
  show "tr' = tr \<or>
         (\<exists>km. fit lib n (drop_id_columns tr) = Inr km \<and> tr' = tr\<lparr>cluster_col := Some (labels km)\<rparr>)"
    and "te' = te \<or>
         (predicted_rating_col te = None \<and>
          (\<exists>cl ps. te' = te\<lparr>cluster_col := Some cl, predicted_rating_col := Some ps\<rparr>))"
    by blast+
qed

lemma sweep_outside:
  assumes "sweep lib n is (trs, tes) acc = (res, trs', tes')" and "j \<notin> set is"
  shows "trs' ! j = trs ! j \<and> tes' ! j = tes ! j"
  using assms
proof (induction "is" arbitrary: trs tes acc)
  case Nil
  obtain a b c where acc: "acc = (a, b, c)" by (cases acc)
  show ?case using Nil by (simp add: acc)
next
  case (Cons i "is")
  obtain a b c where acc: "acc = (a, b, c)" by (cases acc)
  have ji: "j \<noteq> i" and jn: "j \<notin> set is" using Cons.prems(2) by auto
  show ?case
  proof (cases "length tes \<le> i")
    case True
    then show ?thesis using Cons.prems(1) by (simp add: acc)
  next
    case False
    obtain r tr' te' where fs: "fold_step lib n (trs ! i) (tes ! i) = (r, tr', te')"
      by (cases "fold_step lib n (trs ! i) (tes ! i)")
    show ?thesis
    proof (cases r)
      case (Inl e)
      then show ?thesis
        using Cons.prems(1) False fs ji by (auto simp: acc)
    next
      case (Inr v)
      obtain mse km trd where v: "v = (mse, km, trd)" by (cases v)
      have "sweep lib n is (trs[i := tr'], tes[i := te']) (a @ [mse], b @ [km], c @ [trd]) =
              (res, trs', tes')"
        using Cons.prems(1) False fs Inr v by (simp add: acc)
      from Cons.IH [OF this jn] show ?thesis
        using ji by simp
    qed
  qed
qed

lemma sweep_frames:
  assumes "sweep lib n is (trs, tes) acc = (res, trs', tes')"
    and "distinct is" and "\<forall>i \<in> set is. i < length trs"
  shows "(trs' ! j = trs ! j \<or>
          (\<exists>km. fit lib n (drop_id_columns (trs ! j)) = Inr km \<and>
                trs' ! j = (trs ! j)\<lparr>cluster_col := Some (labels km)\<rparr>)) \<and>
         (tes' ! j = tes ! j \<or>
          (predicted_rating_col (tes ! j) = None \<and>
           (\<exists>cl ps. tes' ! j = (tes ! j)\<lparr>cluster_col := Some cl, predicted_rating_col := Some ps\<rparr>)))"
  using assms
proof (induction "is" arbitrary: trs tes acc)
  case Nil
  obtain a b c where acc: "acc = (a, b, c)" by (cases acc)
  show ?case using Nil by (simp add: acc)
next
  case (Cons i "is")
  obtain a b c where acc: "acc = (a, b, c)" by (cases acc)
  have ni: "i \<notin> set is" and d: "distinct is" and ltr: "i < length trs"
    using Cons.prems(2,3) by auto
  show ?case
  proof (cases "length tes \<le> i")
    case True
    then show ?thesis using Cons.prems(1) by (simp add: acc)
  next
    case False
    then have lte: "i < length tes" by simp
    obtain r tr' te' where fs: "fold_step lib n (trs ! i) (tes ! i) = (r, tr', te')"
      by (cases "fold_step lib n (trs ! i) (tes ! i)")
    note fr = fold_step_frames [OF fs]
    have upd: "((trs[i := tr']) ! j = trs ! j \<or>
          (\<exists>km. fit lib n (drop_id_columns (trs ! j)) = Inr km \<and>
                (trs[i := tr']) ! j = (trs ! j)\<lparr>cluster_col := Some (labels km)\<rparr>)) \<and>
         ((tes[i := te']) ! j = tes ! j \<or>
          (predicted_rating_col (tes ! j) = None \<and>
           (\<exists>cl ps. (tes[i := te']) ! j = (tes ! j)\<lparr>cluster_col := Some cl, predicted_rating_col := Some ps\<rparr>)))"
    proof (cases "j = i")
      case True
      then show ?thesis using fr ltr lte by simp
    next
      case False
      then show ?thesis by simp
    qed
    show ?thesis
    proof (cases r)
      case (Inl e)
      then show ?thesis
        using Cons.prems(1) \<open>\<not> length tes \<le> i\<close> fs upd by (simp add: acc)
    next
      case (Inr v)
      obtain mse km trd where v: "v = (mse, km, trd)" by (cases v)
      have rest: "sweep lib n is (trs[i := tr'], tes[i := te']) (a @ [mse], b @ [km], c @ [trd]) =
              (res, trs', tes')"
        using Cons.prems(1) \<open>\<not> length tes \<le> i\<close> fs Inr v by (simp add: acc)
      show ?thesis
      proof (cases "j \<in> set is")
        case True
        then have ji: "j \<noteq> i" using ni by auto
        have bnd: "\<forall>k \<in> set is. k < length (trs[i := tr'])"
          using Cons.prems(3) by simp
        from Cons.IH [OF rest d bnd] show ?thesis
          using ji by simp
      next
        case False
        from sweep_outside [OF rest False] show ?thesis
          using upd by simp
      qed
    qed
  qed
qed

text \<open>The body of every fold of a sweep that returns has returned, on the frames of the caller.\<close>

lemma sweep_Inr_body:
  assumes "sweep lib n is (trs, tes) (a, b, c) = (Inr (a', b', c'), trs', tes')"
    and "distinct is"
  shows "\<exists>kms tds. b' = b @ kms \<and> c' = c @ tds \<and> length kms = length is \<and>
           length tds = length is \<and>
           (\<forall>p < length is. \<exists>td y ps t te.
              fit_predict lib n (trs ! (is ! p)) (tes ! (is ! p)) =
                (Inr (kms ! p, td, y, ps, t), tds ! p, te))"
  using assms
proof (induction "is" arbitrary: trs tes a b c)
  case Nil
  then show ?case by simp
next
  case (Cons i "is")
  from Cons.prems(1) obtain mse km trd tr' te' where lt: "i < length tes"
    and fs: "fold_step lib n (trs ! i) (tes ! i) = (Inr (mse, km, trd), tr', te')"
    and rest: "sweep lib n is (trs[i := tr'], tes[i := te']) (a @ [mse], b @ [km], c @ [trd]) =
                 (Inr (a', b', c'), trs', tes')"
    by (rule sweep_Cons_Inr)
  obtain td y ps t where fp: "fit_predict lib n (trs ! i) (tes ! i) = (Inr (km, td, y, ps, t), tr', te')"
    and tr: "trd = tr'"
    using fold_step_Inr [OF fs] by blast
  have ni: "i \<notin> set is" and d: "distinct is"
    using Cons.prems(2) by auto
  from Cons.IH [OF rest d]
  obtain kms tds where eqs: "b' = (b @ [km]) @ kms" "c' = (c @ [trd]) @ tds"
    and lens: "length kms = length is" "length tds = length is"
    and ins: "\<forall>p < length is. \<exists>td y ps t te.
              fit_predict lib n ((trs[i := tr']) ! (is ! p)) ((tes[i := te']) ! (is ! p)) =
                (Inr (kms ! p, td, y, ps, t), tds ! p, te)"
    by blast
  have other: "(trs[i := tr']) ! (is ! p) = trs ! (is ! p) \<and> (tes[i := te']) ! (is ! p) = tes ! (is ! p)"
    if "p < length is" for p
    using that ni by (metis nth_list_update_neq nth_mem)
  have step: "\<exists>td y ps t te.
              fit_predict lib n (trs ! ((i # is) ! p)) (tes ! ((i # is) ! p)) =
                (Inr ((km # kms) ! p, td, y, ps, t), (trd # tds) ! p, te)"
    if "p < length (i # is)" for p
  proof (cases p)
    case 0
    then show ?thesis using fp tr by auto
  next
    case (Suc q)
    then have q: "q < length is" using that by simp
    show ?thesis
      using ins [rule_format, OF q] other [OF q] by (simp add: Suc)
  qed
  show ?case
    apply (rule exI [of _ "km # kms"], rule exI [of _ "trd # tds"])
    using eqs lens step by simp
qed

section \<open>Claims about the sweep\<close>

text \<open>
  Claim C2. A test row assigned to a cluster that has no training member gets the
  missing value as its predicted rating, never 0. In the per-fold prediction
  (\<open>fit_predict\<close>, the body of the loop of \<open>train_kmeans_and_predict\<close> up to the
  assignment of the predicted column): when the clusters of the train frame are the
  labels of the fitted model and row \<open>j\<close> of the test frame is put into a cluster that
  is not among them, cell \<open>j\<close> of \<^verbatim>\<open>predicted_rating\<close> is the missing value. In the
  single-query predictor: when the movie is in the catalog, the first model puts its
  first row into cluster \<open>c\<close> and no row of the first train frame is in cluster \<open>c\<close>,
  \<open>predict_rating_kmeans\<close> returns, without raising, the missing value together with
  the predicted clusters and the table of cluster means.
\<close>

theorem missing_baseline:
  "(fit_predict lib n_clusters train_data test_data =
      (Inr (km, test_data', y_test, predicted, table), train_after, test_after) \<longrightarrow>
    cluster_col train_after = Some (labels km) \<and>
    predicted_rating_col test_data' = Some predicted \<and>
    (\<exists>cl. cluster_col test_data' = Some cl \<and> length predicted = length cl \<and>
       (\<forall>j < length cl. cl ! j \<notin> set (labels km) \<longrightarrow>
          predicted ! j = None \<and> predicted ! j \<noteq> Some 0))) \<and>
   (movie_features = drop_id_columns (select_rows (\<lambda>r. movieId r = movie_id) movie_data) \<and>
    samples movie_features \<noteq> [] \<and> feature_names movie_features \<noteq> [] \<and>
    predict lib first_model movie_features = Inr (c # cs) \<and>
    cluster_col first_train = Some first_clusters \<and> c \<notin> set first_clusters \<longrightarrow>
    (\<exists>means. groupby_cluster_rating_mean first_train = Inr means \<and> map_of means c = None \<and>
       predict_rating_kmeans lib user_id movie_id (first_model # models) (first_train # train_dfs) movie_data =
         Inr (Prediction None (c # cs) means)))"
proof (intro conjI impI)
  assume fp: "fit_predict lib n_clusters train_data test_data =
      (Inr (km, test_data', y_test, predicted, table), train_after, test_after)"
  note f = fit_predict_Inr [OF fp]
  show "cluster_col train_after = Some (labels km)"
    using f(3) by simp
  obtain cl where cl: "length cl = length (rows test_data)"
    and ps: "predicted = map (map_of table) cl"
    and td: "test_data' = test_data\<lparr>cluster_col := Some cl, predicted_rating_col := Some predicted\<rparr>"
    using f(5) by blast
  have t: "groupby_cluster_rating_mean train_after = Inr table"
    using f(3,7) by simp
  show "predicted_rating_col test_data' = Some predicted"
    using td by simp
  have look: "(map_of table k = None) = (k \<notin> set (labels km))" for k
    using groupby_lookup_full [of train_after "labels km" k] f(2,3) t by simp
  have "map_of table k = None" if "k \<notin> set (labels km)" for k
    using look that by simp
  then have "\<forall>j < length cl. cl ! j \<notin> set (labels km) \<longrightarrow>
          predicted ! j = None \<and> predicted ! j \<noteq> Some 0"
    by (simp add: ps)
  then show "\<exists>cl. cluster_col test_data' = Some cl \<and> length predicted = length cl \<and>
       (\<forall>j < length cl. cl ! j \<notin> set (labels km) \<longrightarrow>
          predicted ! j = None \<and> predicted ! j \<noteq> Some 0)"
    using td ps by simp
next
  assume a: "movie_features = drop_id_columns (select_rows (\<lambda>r. movieId r = movie_id) movie_data) \<and>
    samples movie_features \<noteq> [] \<and> feature_names movie_features \<noteq> [] \<and>
    predict lib first_model movie_features = Inr (c # cs) \<and>
    cluster_col first_train = Some first_clusters \<and> c \<notin> set first_clusters"
  then have "c \<notin> set (map fst (zip first_clusters (rows first_train)))"
    by (auto dest: set_zip_leftD)
  then obtain table where t: "groupby_cluster_rating_mean first_train = Inr table"
    and n: "map_of table c = None"
    using groupby_lookup [of first_train first_clusters c] a by auto
  have s: "samples (drop_id_columns (select_rows (\<lambda>r. movieId r = movie_id) movie_data)) \<noteq> []"
    and f: "feature_names (drop_id_columns (select_rows (\<lambda>r. movieId r = movie_id) movie_data)) \<noteq> []"
    and p: "predict lib first_model
              (drop_id_columns (select_rows (\<lambda>r. movieId r = movie_id) movie_data)) = Inr (c # cs)"
    using a by blast+
  have "predict_rating_kmeans lib user_id movie_id (first_model # models) (first_train # train_dfs) movie_data =
         Inr (Prediction None (c # cs) table)"
    using s f p t n by (simp add: predict_rating_kmeans_def Let_def)
  then show "\<exists>means. groupby_cluster_rating_mean first_train = Inr means \<and> map_of means c = None \<and>
       predict_rating_kmeans lib user_id movie_id (first_model # models) (first_train # train_dfs) movie_data =
         Inr (Prediction None (c # cs) means)"
    using t n by simp
qed

theorem missing_baseline_witness:
  "fit_predict stub_sklearn 2 train_ab test_cd =
     (Inr (model_ab,
           test_cd\<lparr>cluster_col := Some [0, 1], predicted_rating_col := Some [Some (7 / 2), None]\<rparr>,
           [5, 2], [Some (7 / 2), None], [(0, 7 / 2)]),
      clustered_ab,
      test_cd\<lparr>cluster_col := Some [0, 1], predicted_rating_col := Some [Some (7 / 2), None]\<rparr>) \<and>
   (1 :: nat) \<notin> set (labels model_ab) \<and>
   samples (drop_id_columns (select_rows (\<lambda>r. movieId r = 20) catalog)) \<noteq> [] \<and>
   feature_names (drop_id_columns (select_rows (\<lambda>r. movieId r = 20) catalog)) \<noteq> [] \<and>
   predict stub_sklearn model_ab (drop_id_columns (select_rows (\<lambda>r. movieId r = 20) catalog)) =
     Inr [1, 1] \<and>
   cluster_col clustered_ab = Some [0, 0] \<and>
   predict_rating_kmeans stub_sklearn 1 20 [model_ab] [clustered_ab] catalog =
     Inr (Prediction None [1, 1] [(0, 7 / 2)])"
proof -
  have fp: "fit_predict stub_sklearn 2 train_ab test_cd =
     (Inr (model_ab,
           test_cd\<lparr>cluster_col := Some [0, 1], predicted_rating_col := Some [Some (7 / 2), None]\<rparr>,
           [5, 2], [Some (7 / 2), None], [(0, 7 / 2)]),
      clustered_ab,
      test_cd\<lparr>cluster_col := Some [0, 1], predicted_rating_col := Some [Some (7 / 2), None]\<rparr>)"
    by code_simp
  have l: "(1 :: nat) \<notin> set (labels model_ab)"
    by (simp add: model_ab_def)
  have s: "samples (drop_id_columns (select_rows (\<lambda>r. movieId r = 20) catalog)) \<noteq> []"
    by code_simp
  have n: "feature_names (drop_id_columns (select_rows (\<lambda>r. movieId r = 20) catalog)) \<noteq> []"
    by code_simp
  have p: "predict stub_sklearn model_ab
             (drop_id_columns (select_rows (\<lambda>r. movieId r = 20) catalog)) = Inr [1, 1]"
    by code_simp
  have c: "cluster_col clustered_ab = Some [0, 0]"
    by (simp add: clustered_ab_def)
  have g: "groupby_cluster_rating_mean clustered_ab = Inr [(0, 7 / 2)]"
    by code_simp
  have "\<exists>means. groupby_cluster_rating_mean clustered_ab = Inr means \<and> map_of means 1 = None \<and>
       predict_rating_kmeans stub_sklearn 1 20 (model_ab # []) (clustered_ab # []) catalog =
         Inr (Prediction None (1 # [1]) means)"
    using missing_baseline [where lib = stub_sklearn and movie_id = 20 and movie_data = catalog
        and movie_features = "drop_id_columns (select_rows (\<lambda>r. movieId r = 20) catalog)"
        and first_model = model_ab and c = 1 and cs = "[1]" and first_train = clustered_ab
        and first_clusters = "[0, 0]" and user_id = 1 and models = "[]" and train_dfs = "[]"]
      s n p c by simp
  then have "predict_rating_kmeans stub_sklearn 1 20 [model_ab] [clustered_ab] catalog =
     Inr (Prediction None [1, 1] [(0, 7 / 2)])"
    using g by auto
  then show ?thesis
    using fp l s n p c by blast
qed

text \<open>
  Claim C3, as stated, fails: with two folds of which the first has one train row and
  two clusters are asked for, the call raises \<^verbatim>\<open>ValueError\<close> and returns nothing. The
  second fold is never evaluated (its frames are as they were), although the same fold
  evaluates on its own.
\<close>

theorem degenerate_fold_counterexample:
  "train_kmeans_and_predict stub_sklearn [train_a, train_ab] [test_c, test_c] 2 =
     (Inl ValueError, [train_a, train_ab], [test_c, test_c]) \<and>
   fst (train_kmeans_and_predict stub_sklearn [train_ab] [test_c] 2) =
     Inr ([9 / 4], [model_ab], [clustered_ab])"
  by code_simp

text \<open>
  Claim C3, amended. When the train set of some fold has fewer rows than the requested
  number of clusters, \<open>train_kmeans_and_predict\<close> raises: the error is reported, and it
  ends the whole sweep. No result is returned for any fold, and that fold and the folds
  after it are not evaluated (their frames are left as they were).
\<close>

theorem degenerate_fold_aborts:
  assumes "i < length train_df" and "length (rows (train_df ! i)) < n_clusters"
  shows "\<exists>e train_df' test_df'.
           train_kmeans_and_predict lib train_df test_df n_clusters = (Inl e, train_df', test_df') \<and>
           (\<forall>j. i \<le> j \<longrightarrow> train_df' ! j = train_df ! j \<and> test_df' ! j = test_df ! j)"
proof -
  have split: "[0..<length train_df] = [0..<i] @ i # [Suc i..<length train_df]"
    using assms(1) by (metis le0 upt_conv_Cons upt_add_eq_append le_add_diff_inverse less_imp_le_nat)
  have "i \<notin> set [0..<i]" by simp
  from sweep_degenerate [OF this assms(2), of lib "[Suc i..<length train_df]" test_df "([], [], [])"]
  show ?thesis
    unfolding train_kmeans_and_predict_def split by auto
qed

theorem degenerate_fold_aborts_witness:
  "(1 :: nat) < length [train_ab, train_a, train_ab] \<and>
   length (rows ([train_ab, train_a, train_ab] ! 1)) < (2 :: nat) \<and>
   (\<exists>e train_df' test_df'.
      train_kmeans_and_predict stub_sklearn [train_ab, train_a, train_ab] [test_c, test_c, test_c] 2 =
        (Inl e, train_df', test_df') \<and>
      train_df' ! 2 = train_ab \<and> test_df' ! 2 = test_c)"
proof -
  have a: "(1 :: nat) < length [train_ab, train_a, train_ab]"
    by simp
  have b: "length (rows ([train_ab, train_a, train_ab] ! 1)) < (2 :: nat)"
    by (simp add: train_a_def frame_of_def)
  obtain e train_df' test_df' where
    r: "train_kmeans_and_predict stub_sklearn [train_ab, train_a, train_ab] [test_c, test_c, test_c] 2 =
        (Inl e, train_df', test_df')"
    and u: "\<forall>j. 1 \<le> j \<longrightarrow> train_df' ! j = [train_ab, train_a, train_ab] ! j \<and>
                            test_df' ! j = [test_c, test_c, test_c] ! j"
    using degenerate_fold_aborts [OF a b, of stub_sklearn "[test_c, test_c, test_c]"] by blast
  have "train_df' ! 2 = train_ab \<and> test_df' ! 2 = test_c"
    using u [rule_format, of 2] by simp
  then show ?thesis
    using a b r by blast
qed

text \<open>
  Claim C8. The test rows never reach the fitting or the cluster means. In the body of
  a fold, the fitted model, the table of cluster means and the train frame with its
  clusters are what the train frame and the number of clusters give: the model is the
  one fitted to the train features, and the table is the mean rating of the train rows
  by the labels of that model. So two runs of the body on the same train frame, with
  any two test frames, that both return, return the same model (the same cluster
  centers) and the same table. Two runs of \<open>train_kmeans_and_predict\<close> on the same train
  sets, with any test sets, that both return, return the same models and train frames,
  and the body of every fold has computed the same model and the same table in both.
  And whatever the outcome of two runs (a result or an exception), a train frame that
  both runs have changed is the same after both.
\<close>

theorem no_leakage:
  "(fit_predict lib n_clusters train_data test_data =
      (Inr (km, td, y, ps, table), train_clustered, te) \<longrightarrow>
    fit lib n_clusters (drop_id_columns train_data) = Inr km \<and>
    train_clustered = train_data\<lparr>cluster_col := Some (labels km)\<rparr> \<and>
    groupby_cluster_rating_mean (train_data\<lparr>cluster_col := Some (labels km)\<rparr>) = Inr table) \<and>
   (fit_predict lib n_clusters train_data test_data =
      (Inr (km, td, y, ps, table), train_clustered, te) \<and>
    fit_predict lib n_clusters train_data test_data' =
      (Inr (km', td', y', ps', table'), train_clustered', te') \<longrightarrow>
    km = km' \<and> cluster_centers km = cluster_centers km' \<and> table = table' \<and>
    train_clustered = train_clustered') \<and>
   (train_kmeans_and_predict lib train_df test_df n_clusters =
      (Inr (mse_list, models, train_dfs), train_after, test_after) \<and>
    train_kmeans_and_predict lib train_df test_df' n_clusters =
      (Inr (mse_list', models', train_dfs'), train_after', test_after') \<longrightarrow>
    models = models' \<and> map cluster_centers models = map cluster_centers models' \<and>
    train_dfs = train_dfs' \<and> train_after = train_after' \<and>
    (\<forall>i < length train_df. \<exists>means td1 y1 ps1 te1 td2 y2 ps2 te2.
       fit_predict lib n_clusters (train_df ! i) (test_df ! i) =
         (Inr (models ! i, td1, y1, ps1, means), train_dfs ! i, te1) \<and>
       fit_predict lib n_clusters (train_df ! i) (test_df' ! i) =
         (Inr (models ! i, td2, y2, ps2, means), train_dfs ! i, te2))) \<and>
   (train_kmeans_and_predict lib train_df test_df n_clusters = (res, changed, tests) \<and>
    train_kmeans_and_predict lib train_df test_df' n_clusters = (res', changed', tests') \<longrightarrow>
    (\<forall>j. changed ! j = train_df ! j \<or> changed' ! j = train_df ! j \<or> changed ! j = changed' ! j))"
proof -
  let ?is = "[0..<length train_df]"
  have d: "distinct ?is" and b: "\<forall>i \<in> set ?is. i < length train_df"
    by simp_all
  have one: "fit lib n_clusters (drop_id_columns train_data) = Inr km \<and>
      train_clustered = train_data\<lparr>cluster_col := Some (labels km)\<rparr> \<and>
      groupby_cluster_rating_mean (train_data\<lparr>cluster_col := Some (labels km)\<rparr>) = Inr table"
    if "fit_predict lib n_clusters train_data test_data =
          (Inr (km, td, y, ps, table), train_clustered, te)"
    for train_data test_data km td y ps table train_clustered te
    using fit_predict_Inr(1,3,7) [OF that] by simp
  have two: "km = km' \<and> cluster_centers km = cluster_centers km' \<and> table = table' \<and>
      train_clustered = train_clustered'"
    if "fit_predict lib n_clusters train_data test_data =
          (Inr (km, td, y, ps, table), train_clustered, te) \<and>
        fit_predict lib n_clusters train_data test_data' =
          (Inr (km', td', y', ps', table'), train_clustered', te')"
    for train_data test_data test_data' km td y ps table train_clustered te
      km' td' y' ps' table' train_clustered' te'
  proof -
    have a: "fit lib n_clusters (drop_id_columns train_data) = Inr km \<and>
      train_clustered = train_data\<lparr>cluster_col := Some (labels km)\<rparr> \<and>
      groupby_cluster_rating_mean (train_data\<lparr>cluster_col := Some (labels km)\<rparr>) = Inr table"
      using that by (intro one) blast
    have b: "fit lib n_clusters (drop_id_columns train_data) = Inr km' \<and>
      train_clustered' = train_data\<lparr>cluster_col := Some (labels km')\<rparr> \<and>
      groupby_cluster_rating_mean (train_data\<lparr>cluster_col := Some (labels km')\<rparr>) = Inr table'"
      using that by (intro one) blast
    from a b have "km = km'" by simp
    with a b show ?thesis by simp
  qed
  have three: "models = models' \<and> map cluster_centers models = map cluster_centers models' \<and>
      train_dfs = train_dfs' \<and> train_after = train_after' \<and>
      (\<forall>i < length train_df. \<exists>means td1 y1 ps1 te1 td2 y2 ps2 te2.
         fit_predict lib n_clusters (train_df ! i) (test_df ! i) =
           (Inr (models ! i, td1, y1, ps1, means), train_dfs ! i, te1) \<and>
         fit_predict lib n_clusters (train_df ! i) (test_df' ! i) =
           (Inr (models ! i, td2, y2, ps2, means), train_dfs ! i, te2))"
    if runs: "train_kmeans_and_predict lib train_df test_df n_clusters =
        (Inr (mse_list, models, train_dfs), train_after, test_after) \<and>
      train_kmeans_and_predict lib train_df test_df' n_clusters =
        (Inr (mse_list', models', train_dfs'), train_after', test_after')"
  proof -
    have r1: "sweep lib n_clusters ?is (train_df, test_df) ([], [], []) =
        (Inr (mse_list, models, train_dfs), train_after, test_after)"
      and r2: "sweep lib n_clusters ?is (train_df, test_df') ([], [], []) =
        (Inr (mse_list', models', train_dfs'), train_after', test_after')"
      using runs by (simp_all add: train_kmeans_and_predict_def)
    from sweep_Inr_body [OF r1 d]
    have l1: "length models = length train_df" "length train_dfs = length train_df"
      and b1: "\<forall>p < length train_df. \<exists>td y ps t te.
              fit_predict lib n_clusters (train_df ! p) (test_df ! p) =
                (Inr (models ! p, td, y, ps, t), train_dfs ! p, te)"
      by auto
    from sweep_Inr_body [OF r2 d]
    have l2: "length models' = length train_df" "length train_dfs' = length train_df"
      and b2: "\<forall>p < length train_df. \<exists>td y ps t te.
              fit_predict lib n_clusters (train_df ! p) (test_df' ! p) =
                (Inr (models' ! p, td, y, ps, t), train_dfs' ! p, te)"
      by auto
    have pt: "models ! p = models' ! p \<and> train_dfs ! p = train_dfs' ! p \<and>
        (\<exists>means td1 y1 ps1 te1 td2 y2 ps2 te2.
         fit_predict lib n_clusters (train_df ! p) (test_df ! p) =
           (Inr (models ! p, td1, y1, ps1, means), train_dfs ! p, te1) \<and>
         fit_predict lib n_clusters (train_df ! p) (test_df' ! p) =
           (Inr (models ! p, td2, y2, ps2, means), train_dfs ! p, te2))"
      if p: "p < length train_df" for p
    proof -
      obtain td1 y1 ps1 t1 te1 where f1:
        "fit_predict lib n_clusters (train_df ! p) (test_df ! p) =
           (Inr (models ! p, td1, y1, ps1, t1), train_dfs ! p, te1)"
        using b1 p by blast
      obtain td2 y2 ps2 t2 te2 where f2:
        "fit_predict lib n_clusters (train_df ! p) (test_df' ! p) =
           (Inr (models' ! p, td2, y2, ps2, t2), train_dfs' ! p, te2)"
        using b2 p by blast
      have e: "models ! p = models' ! p \<and> cluster_centers (models ! p) = cluster_centers (models' ! p) \<and>
          t1 = t2 \<and> train_dfs ! p = train_dfs' ! p"
        by (rule two) (use f1 f2 in blast)
      then show ?thesis
        using f1 f2 by auto
    qed
    have m: "models = models'"
      using l1 l2 pt by (intro nth_equalityI) auto
    have t: "train_dfs = train_dfs'"
      using l1 l2 pt by (intro nth_equalityI) auto
    from sweep_Inr_char [OF r1 d b] sweep_Inr_char [OF r2 d b]
    have "length train_after = length train_df" "length train_after' = length train_df"
      and "\<forall>p < length train_df. train_after ! p = train_dfs ! p"
      and "\<forall>p < length train_df. train_after' ! p = train_dfs' ! p"
      by auto
    then have ta: "train_after = train_after'"
      using t by (intro nth_equalityI) auto
    show ?thesis
      using m t ta pt by simp
  qed
  have four: "\<forall>j. changed ! j = train_df ! j \<or> changed' ! j = train_df ! j \<or> changed ! j = changed' ! j"
    if runs: "train_kmeans_and_predict lib train_df test_df n_clusters = (res, changed, tests) \<and>
      train_kmeans_and_predict lib train_df test_df' n_clusters = (res', changed', tests')"
  proof
    fix j
    have r1: "sweep lib n_clusters ?is (train_df, test_df) ([], [], []) = (res, changed, tests)"
      and r2: "sweep lib n_clusters ?is (train_df, test_df') ([], [], []) = (res', changed', tests')"
      using runs by (simp_all add: train_kmeans_and_predict_def)
    from sweep_frames [OF r1 d b, of j] sweep_frames [OF r2 d b, of j]
    show "changed ! j = train_df ! j \<or> changed' ! j = train_df ! j \<or> changed ! j = changed' ! j"
      by auto
  qed
  show ?thesis
    using one [of train_data test_data km td y ps table train_clustered te]
      two [of train_data test_data km td y ps table train_clustered te test_data' km' td' y' ps'
        table' train_clustered' te']
      three four
    by blast
qed

theorem no_leakage_witness:
  "fit_predict stub_sklearn 2 train_ab test_c =
     (Inr (model_ab, predicted_test_c, [5], [Some (7 / 2)], [(0, 7 / 2)]), clustered_ab,
      predicted_test_c) \<and>
   fit_predict stub_sklearn 2 train_ab test_cd =
     (Inr (model_ab,
           test_cd\<lparr>cluster_col := Some [0, 1], predicted_rating_col := Some [Some (7 / 2), None]\<rparr>,
           [5, 2], [Some (7 / 2), None], [(0, 7 / 2)]),
      clustered_ab,
      test_cd\<lparr>cluster_col := Some [0, 1], predicted_rating_col := Some [Some (7 / 2), None]\<rparr>) \<and>
   test_c \<noteq> test_cd \<and>
   groupby_cluster_rating_mean (train_ab\<lparr>cluster_col := Some (labels model_ab)\<rparr>) =
     Inr [(0, 7 / 2)]"
proof -
  have r1: "fit_predict stub_sklearn 2 train_ab test_c =
     (Inr (model_ab, predicted_test_c, [5], [Some (7 / 2)], [(0, 7 / 2)]), clustered_ab,
      predicted_test_c)"
    by code_simp
  have r2: "fit_predict stub_sklearn 2 train_ab test_cd =
     (Inr (model_ab,
           test_cd\<lparr>cluster_col := Some [0, 1], predicted_rating_col := Some [Some (7 / 2), None]\<rparr>,
           [5, 2], [Some (7 / 2), None], [(0, 7 / 2)]),
      clustered_ab,
      test_cd\<lparr>cluster_col := Some [0, 1], predicted_rating_col := Some [Some (7 / 2), None]\<rparr>)"
    by code_simp
  have ne: "test_c \<noteq> test_cd"
    by code_simp
  have g: "groupby_cluster_rating_mean (train_ab\<lparr>cluster_col := Some (labels model_ab)\<rparr>) =
     Inr [(0, 7 / 2)]"
    using no_leakage [THEN conjunct1, rule_format, OF r1] by (elim conjE)
  show ?thesis
    by (rule conjI [OF r1 conjI [OF r2 conjI [OF ne g]]])
qed

text \<open>
  Claim C9, as stated, fails. After a call on a train frame and a test frame without a
  \<^verbatim>\<open>cluster\<close> column, the caller's train frame has a \<^verbatim>\<open>cluster\<close> column and the caller's
  test frame has a \<^verbatim>\<open>cluster\<close> and a \<^verbatim>\<open>predicted_rating\<close> column. And a second call on
  the frames that this call has left raises: the features of the test frame are taken
  with the stale \<^verbatim>\<open>predicted_rating\<close> column, which the model was not fitted on, so
  nothing is returned and the stale column stays as it was.
\<close>

theorem frames_counterexample:
  "train_kmeans_and_predict stub_sklearn [train_ab] [test_c] 2 =
     (Inr ([9 / 4], [model_ab], [clustered_ab]), [clustered_ab], [predicted_test_c]) \<and>
   clustered_ab \<noteq> train_ab \<and> predicted_test_c \<noteq> test_c \<and>
   train_kmeans_and_predict stub_sklearn [clustered_ab] [predicted_test_c] 2 =
     (Inl ValueError, [clustered_ab], [predicted_test_c])"
  by code_simp

text \<open>
  Claim C9, amended. \<open>train_kmeans_and_predict\<close> changes the caller's frames in place.
  When it returns, every train frame of the caller carries a \<^verbatim>\<open>cluster\<close> column with the
  labels of its fold's model, and the returned train frames are these frames; a test
  frame that had no \<^verbatim>\<open>predicted_rating\<close> column has got a \<^verbatim>\<open>cluster\<close> and a
  \<^verbatim>\<open>predicted_rating\<close> column; a test frame that had a \<^verbatim>\<open>predicted_rating\<close> column is
  unchanged. Whatever the outcome, a result or an exception, nothing else can have
  happened to a frame: a train frame is as it was or has its \<^verbatim>\<open>cluster\<close> column set, a
  test frame is as it was or, if it had no \<^verbatim>\<open>predicted_rating\<close> column, has both columns
  set. When the body of a fold gets as far as the prediction, its local test frame is
  the test frame with the predicted clusters and with one \<^verbatim>\<open>predicted_rating\<close> column,
  which holds the new predictions and nothing of a stale column; for a test frame that
  had the column this local frame is a copy, which is not returned.
\<close>

theorem frames_after_sweep:
  "(train_kmeans_and_predict lib train_df test_df n_clusters =
      (Inr (mse_list, models, train_dfs), train_after, test_after) \<longrightarrow>
    train_after = train_dfs \<and>
    length mse_list = length train_df \<and> length models = length train_df \<and>
    length train_dfs = length train_df \<and>
    length test_after = length test_df \<and> length train_df \<le> length test_df \<and>
    (\<forall>i < length train_df.
       train_dfs ! i = (train_df ! i)\<lparr>cluster_col := Some (labels (models ! i))\<rparr> \<and>
       (predicted_rating_col (test_df ! i) \<noteq> None \<longrightarrow> test_after ! i = test_df ! i) \<and>
       (predicted_rating_col (test_df ! i) = None \<longrightarrow>
          (\<exists>cl ps. test_after ! i =
             (test_df ! i)\<lparr>cluster_col := Some cl, predicted_rating_col := Some ps\<rparr>))) \<and>
    (\<forall>i. length train_df \<le> i \<longrightarrow> test_after ! i = test_df ! i)) \<and>
   (train_kmeans_and_predict lib train_df test_df n_clusters = (res, trains, tests) \<longrightarrow>
    (\<forall>j. (trains ! j = train_df ! j \<or>
          (\<exists>cl. trains ! j = (train_df ! j)\<lparr>cluster_col := Some cl\<rparr>)) \<and>
         (tests ! j = test_df ! j \<or>
          (predicted_rating_col (test_df ! j) = None \<and>
           (\<exists>cl ps. tests ! j =
              (test_df ! j)\<lparr>cluster_col := Some cl, predicted_rating_col := Some ps\<rparr>))))) \<and>
   (fit_predict lib n_clusters train_data test_data =
      (Inr (km, local_test, y_test, predicted, table), train_clustered, test_kept) \<longrightarrow>
    (\<exists>cl. predict lib km (drop_id_columns test_data) = Inr cl \<and>
          predicted = map (map_of table) cl \<and>
          local_test = test_data\<lparr>cluster_col := Some cl, predicted_rating_col := Some predicted\<rparr>) \<and>
    (predicted_rating_col test_data \<noteq> None \<longrightarrow> test_kept = test_data) \<and>
    (predicted_rating_col test_data = None \<longrightarrow> test_kept = local_test))"
proof -
  let ?is = "[0..<length train_df]"
  have d: "distinct ?is" and b: "\<forall>i \<in> set ?is. i < length train_df"
    by simp_all
  have one: "train_after = train_dfs \<and>
      length mse_list = length train_df \<and> length models = length train_df \<and>
      length train_dfs = length train_df \<and>
      length test_after = length test_df \<and> length train_df \<le> length test_df \<and>
      (\<forall>i < length train_df.
         train_dfs ! i = (train_df ! i)\<lparr>cluster_col := Some (labels (models ! i))\<rparr> \<and>
         (predicted_rating_col (test_df ! i) \<noteq> None \<longrightarrow> test_after ! i = test_df ! i) \<and>
         (predicted_rating_col (test_df ! i) = None \<longrightarrow>
            (\<exists>cl ps. test_after ! i =
               (test_df ! i)\<lparr>cluster_col := Some cl, predicted_rating_col := Some ps\<rparr>))) \<and>
      (\<forall>i. length train_df \<le> i \<longrightarrow> test_after ! i = test_df ! i)"
    if "train_kmeans_and_predict lib train_df test_df n_clusters =
      (Inr (mse_list, models, train_dfs), train_after, test_after)"
  proof -
    have r: "sweep lib n_clusters ?is (train_df, test_df) ([], [], []) =
        (Inr (mse_list, models, train_dfs), train_after, test_after)"
      using that by (simp add: train_kmeans_and_predict_def)
    from sweep_Inr_char [OF r d b]
    obtain ms kms tds where m: "mse_list = ms" "models = kms" "train_dfs = tds"
      and l: "length ms = length train_df" "length kms = length train_df"
        "length tds = length train_df" "length train_after = length train_df"
        "length test_after = length test_df"
      and inb: "\<forall>i \<in> set ?is. i < length test_df"
      and out: "\<forall>j. j \<notin> set ?is \<longrightarrow> train_after ! j = train_df ! j \<and> test_after ! j = test_df ! j"
      and p: "\<forall>p < length train_df.
                tds ! p = (train_df ! p)\<lparr>cluster_col := Some (labels (kms ! p))\<rparr> \<and>
                train_after ! p = tds ! p \<and>
                (predicted_rating_col (test_df ! p) \<noteq> None \<longrightarrow> test_after ! p = test_df ! p) \<and>
                (predicted_rating_col (test_df ! p) = None \<longrightarrow>
                   (\<exists>cl ps. test_after ! p =
                      (test_df ! p)\<lparr>cluster_col := Some cl, predicted_rating_col := Some ps\<rparr>))"
      by auto
    have ta: "train_after = tds"
      using l p by (intro nth_equalityI) auto
    have le: "length train_df \<le> length test_df"
    proof (cases "length train_df")
      case 0
      then show ?thesis by simp
    next
      case (Suc k)
      then have "k \<in> set ?is" by simp
      then show ?thesis using inb Suc by fastforce
    qed
    have beyond: "\<forall>i. length train_df \<le> i \<longrightarrow> test_after ! i = test_df ! i"
      using out by simp
    show ?thesis
      using ta le beyond l p unfolding m by simp
  qed
  have two: "\<forall>j. (trains ! j = train_df ! j \<or>
          (\<exists>cl. trains ! j = (train_df ! j)\<lparr>cluster_col := Some cl\<rparr>)) \<and>
         (tests ! j = test_df ! j \<or>
          (predicted_rating_col (test_df ! j) = None \<and>
           (\<exists>cl ps. tests ! j =
              (test_df ! j)\<lparr>cluster_col := Some cl, predicted_rating_col := Some ps\<rparr>)))"
    if "train_kmeans_and_predict lib train_df test_df n_clusters = (res, trains, tests)"
  proof
    fix j
    have r: "sweep lib n_clusters ?is (train_df, test_df) ([], [], []) = (res, trains, tests)"
      using that by (simp add: train_kmeans_and_predict_def)
    from sweep_frames [OF r d b, of j]
    show "(trains ! j = train_df ! j \<or>
          (\<exists>cl. trains ! j = (train_df ! j)\<lparr>cluster_col := Some cl\<rparr>)) \<and>
         (tests ! j = test_df ! j \<or>
          (predicted_rating_col (test_df ! j) = None \<and>
           (\<exists>cl ps. tests ! j =
              (test_df ! j)\<lparr>cluster_col := Some cl, predicted_rating_col := Some ps\<rparr>)))"
      by blast
  qed
  have three: "(\<exists>cl. predict lib km (drop_id_columns test_data) = Inr cl \<and>
          predicted = map (map_of table) cl \<and>
          local_test = test_data\<lparr>cluster_col := Some cl, predicted_rating_col := Some predicted\<rparr>) \<and>
      (predicted_rating_col test_data \<noteq> None \<longrightarrow> test_kept = test_data) \<and>
      (predicted_rating_col test_data = None \<longrightarrow> test_kept = local_test)"
    if "fit_predict lib n_clusters train_data test_data =
      (Inr (km, local_test, y_test, predicted, table), train_clustered, test_kept)"
    using fit_predict_Inr(5,6) [OF that] by auto
  show ?thesis
    using one two three by blast
qed

theorem frames_after_sweep_witness:
  "train_kmeans_and_predict stub_sklearn [stale_train_ab, train_ab] [stale_test_c, test_c] 2 =
     (Inr ([9 / 4, 9 / 4], [model_stale, model_ab],
           [stale_train_ab\<lparr>cluster_col := Some [0, 0]\<rparr>, clustered_ab]),
      [stale_train_ab\<lparr>cluster_col := Some [0, 0]\<rparr>, clustered_ab],
      [stale_test_c, predicted_test_c]) \<and>
   fit_predict stub_sklearn 2 stale_train_ab stale_test_c =
     (Inr (model_stale,
           test_c\<lparr>cluster_col := Some [0], predicted_rating_col := Some [Some (7 / 2)]\<rparr>,
           [5], [Some (7 / 2)], [(0, 7 / 2)]),
      stale_train_ab\<lparr>cluster_col := Some [0, 0]\<rparr>, stale_test_c) \<and>
   predicted_rating_col stale_test_c = Some [Some 1] \<and>
   [stale_train_ab\<lparr>cluster_col := Some [0, 0]\<rparr>, clustered_ab] ! 0 =
     ([stale_train_ab, train_ab] ! 0)\<lparr>cluster_col := Some (labels ([model_stale, model_ab] ! 0))\<rparr>"
proof -
  have r: "train_kmeans_and_predict stub_sklearn [stale_train_ab, train_ab] [stale_test_c, test_c] 2 =
     (Inr ([9 / 4, 9 / 4], [model_stale, model_ab],
           [stale_train_ab\<lparr>cluster_col := Some [0, 0]\<rparr>, clustered_ab]),
      [stale_train_ab\<lparr>cluster_col := Some [0, 0]\<rparr>, clustered_ab],
      [stale_test_c, predicted_test_c])"
    by code_simp
  have f: "fit_predict stub_sklearn 2 stale_train_ab stale_test_c =
     (Inr (model_stale,
           test_c\<lparr>cluster_col := Some [0], predicted_rating_col := Some [Some (7 / 2)]\<rparr>,
           [5], [Some (7 / 2)], [(0, 7 / 2)]),
      stale_train_ab\<lparr>cluster_col := Some [0, 0]\<rparr>, stale_test_c)"
    by code_simp
  have s: "predicted_rating_col stale_test_c = Some [Some 1]"
    by code_simp
  have "\<forall>i < length [stale_train_ab, train_ab].
          [stale_train_ab\<lparr>cluster_col := Some [0, 0]\<rparr>, clustered_ab] ! i =
            ([stale_train_ab, train_ab] ! i)\<lparr>cluster_col := Some (labels ([model_stale, model_ab] ! i))\<rparr>"
    using frames_after_sweep [THEN conjunct1, rule_format, OF r] by blast
  from this [rule_format, of 0] have c:
    "[stale_train_ab\<lparr>cluster_col := Some [0, 0]\<rparr>, clustered_ab] ! 0 =
     ([stale_train_ab, train_ab] ! 0)\<lparr>cluster_col := Some (labels ([model_stale, model_ab] ! 0))\<rparr>"
    by simp
  show ?thesis
    by (rule conjI [OF r conjI [OF f conjI [OF s c]]])
qed

end
